theory Spec2Isabelle
  imports Complex_Main "HOL-Library.AList"
begin

section \<open>The EXO interpreter (src/main.py) as a shallow embedding\<close>

text \<open>
  The interpreter works on source text: every statement and every expression is a Python
  string that is scanned, split and dispatched on. The embedding keeps that level. A Python
  \<^verbatim>\<open>str\<close> is a \<^typ>\<open>string\<close>; a \<^typ>\<open>char\<close> is read as the code point of the
  same number (0 to 255). The Arabic keyword aliases of the source consist of code points
  above 255, so no string of the model starts with, equals or contains one of them, and the
  alternatives that test for them are left out of the definitions: on the strings of the
  model they are always false.
\<close>

subsection \<open>Python string operations\<close>

text \<open>\<^verbatim>\<open>str.isspace\<close> on one code point below 256, the set \<^verbatim>\<open>str.strip()\<close> removes.\<close>

definition is_space :: "char \<Rightarrow> bool" where
  "is_space c = (let n = of_char c :: nat in
     (9 \<le> n \<and> n \<le> 13) \<or> (28 \<le> n \<and> n \<le> 32) \<or> n = 133 \<or> n = 160)"

definition lstrip :: "string \<Rightarrow> string" where
  "lstrip s = dropWhile is_space s"

definition rstrip :: "string \<Rightarrow> string" where
  "rstrip s = rev (dropWhile is_space (rev s))"

definition strip :: "string \<Rightarrow> string" where
  "strip s = rstrip (lstrip s)"

definition startswith :: "string \<Rightarrow> string \<Rightarrow> bool" where
  "startswith s p = (take (length p) s = p)"

definition endswith :: "string \<Rightarrow> string \<Rightarrow> bool" where
  "endswith s p = (length p \<le> length s \<and> drop (length s - length p) s = p)"

text \<open>\<^verbatim>\<open>s.find(c)\<close> for a one-character needle: the first index, or \<open>None\<close> for Python's -1.\<close>

fun find_char :: "char \<Rightarrow> string \<Rightarrow> nat option" where
  "find_char c [] = None"
| "find_char c (x # xs) =
     (if x = c then Some 0 else map_option Suc (find_char c xs))"

text \<open>\<^verbatim>\<open>s.rfind(c)\<close>: the last index.\<close>

definition rfind_char :: "char \<Rightarrow> string \<Rightarrow> nat option" where
  "rfind_char c s =
     (case find_char c (rev s) of None \<Rightarrow> None | Some k \<Rightarrow> Some (length s - 1 - k))"

text \<open>\<^verbatim>\<open>s[a:b]\<close> for indices that are not negative.\<close>

definition slice :: "string \<Rightarrow> nat \<Rightarrow> nat \<Rightarrow> string" where
  "slice s a b = take (b - a) (drop a s)"

text \<open>\<^verbatim>\<open>s[1:-1]\<close>.\<close>

definition inner :: "string \<Rightarrow> string" where
  "inner s = butlast (drop 1 s)"

text \<open>\<^verbatim>\<open>s.split(c, 1)\<close> for a string that contains \<open>c\<close>: the text before the first
  \<open>c\<close> and the text after it.\<close>

definition split1 :: "char \<Rightarrow> string \<Rightarrow> string \<times> string" where
  "split1 c s = (takeWhile (\<lambda>x. x \<noteq> c) s, drop 1 (dropWhile (\<lambda>x. x \<noteq> c) s))"

text \<open>\<^verbatim>\<open>s.split(c)\<close>: all the pieces between occurrences of \<open>c\<close>.\<close>

fun split_char :: "char \<Rightarrow> string \<Rightarrow> string list" where
  "split_char c [] = [[]]"
| "split_char c (x # xs) =
     (case split_char c xs of
        [] \<Rightarrow> [[]]
      | p # ps \<Rightarrow> if x = c then [] # p # ps else (x # p) # ps)"

text \<open>\<^verbatim>\<open>len(line.split()[0])\<close> for a stripped, non-empty line: the length of its first
  whitespace-delimited word.\<close>

definition first_word_len :: "string \<Rightarrow> nat" where
  "first_word_len s = length (takeWhile (\<lambda>c. \<not> is_space c) s)"

text \<open>\<^verbatim>\<open>str.replace(old, new)\<close>: every occurrence, left to right, without overlap. The
  source only replaces non-empty text.\<close>

fun replace_skip :: "string \<Rightarrow> string \<Rightarrow> nat \<Rightarrow> string \<Rightarrow> string" where
  "replace_skip old new k [] = []"
| "replace_skip old new k (c # cs) =
     (if 0 < k then replace_skip old new (k - 1) cs
      else if old \<noteq> [] \<and> startswith (c # cs) old
        then new @ replace_skip old new (length old - 1) cs
      else c # replace_skip old new 0 cs)"

definition replace :: "string \<Rightarrow> string \<Rightarrow> string \<Rightarrow> string" where
  "replace old new s = replace_skip old new 0 s"

text \<open>\<^verbatim>\<open>parse_string\<close>: the six replacements in the order of the source.\<close>

definition parse_string :: "string \<Rightarrow> string" where
  "parse_string s =
     replace [CHR 0x5C, CHR 0x5C] [CHR 0x5C]
       (replace [CHR 0x5C, CHR 0x27] [CHR 0x27]
         (replace [CHR 0x5C, CHR 0x22] [CHR 0x22]
           (replace [CHR 0x5C, CHR ''r''] [CHR 0x0D]
             (replace [CHR 0x5C, CHR ''t''] [CHR 0x09]
               (replace [CHR 0x5C, CHR ''n''] [CHR 0x0A] s)))))"

text \<open>\<^verbatim>\<open>str.isidentifier\<close> on code points below 256: a letter or underscore first
  (the letters of Latin-1 included), then letters, digits, underscores and the middle dot.\<close>

definition id_start :: "char \<Rightarrow> bool" where
  "id_start c = (let n = of_char c :: nat in
     (65 \<le> n \<and> n \<le> 90) \<or> n = 95 \<or> (97 \<le> n \<and> n \<le> 122) \<or>
     n = 170 \<or> n = 181 \<or> n = 186 \<or> (192 \<le> n \<and> n \<le> 214) \<or>
     (216 \<le> n \<and> n \<le> 246) \<or> (248 \<le> n \<and> n \<le> 255))"

definition id_continue :: "char \<Rightarrow> bool" where
  "id_continue c = (let n = of_char c :: nat in
     id_start c \<or> (48 \<le> n \<and> n \<le> 57) \<or> n = 183)"

definition isidentifier :: "string \<Rightarrow> bool" where
  "isidentifier s = (case s of [] \<Rightarrow> False | c # cs \<Rightarrow> id_start c \<and> list_all id_continue cs)"

subsection \<open>Values, objects and errors\<close>

text \<open>
  The values of the language are Python objects. \<open>None\<close>, booleans, integers (unbounded, as
  Python's are), floats and strings are immutable and carried as they are. A finite float is
  carried as the rational number it denotes (the sign of a zero is not kept; infinities and
  NaN cannot be carried, and a step that would produce one is outside the model). Lists and
  dicts are mutable and shared, so a value of these kinds is the address of an object in the
  heap of the state.
\<close>

datatype val =
  VNone | VBool bool | VInt int | VFloat rat | VStr string | VList nat | VDict nat

datatype obj = OList "val list" | ODict "(val \<times> val) list"

text \<open>The host exceptions of Python that the interpreter can meet, by class.\<close>

datatype pyexc =
  KeyError | IndexError | TypeError | ZeroDivisionError | OverflowError | ValueError
  | AttributeError | RuntimeError

text \<open>
  The message of an \<^verbatim>\<open>ExoError\<close>. Where the source formats a host exception into the
  message (\<^verbatim>\<open>f"Evaluation error: {e}"\<close>), the text of the exception is the host's; the
  model keeps the prefix and the class of the exception.
\<close>

datatype message =
  Msg string | Evaluation_error pyexc | Unexpected_error pyexc | Failed_to_load pyexc

text \<open>\<^verbatim>\<open>class ExoError\<close>: message, line, file and context. (The formatted text that the
  constructor also builds from these and from the call stack is not modelled.)\<close>

record exo_error =
  err_msg :: message
  err_line :: "nat option"
  err_file :: "string option"
  err_context :: "string option"

datatype exn = Exo exo_error | Py pyexc

text \<open>\<^verbatim>\<open>class Scope\<close>: a parent (the index of another scope of the store), a name and
  the variables, a Python dict from names to values, kept in insertion order.\<close>

record scope =
  scope_parent :: "nat option"
  scope_name :: string
  scope_vars :: "(string \<times> val) list"

text \<open>
  The global state of the module: the store of all \<^verbatim>\<open>Scope\<close> objects (\<^verbatim>\<open>global_scope\<close>
  is scope 0), \<^verbatim>\<open>current_scope\<close>, the tables \<^verbatim>\<open>functions\<close>, \<^verbatim>\<open>modules\<close> and
  \<^verbatim>\<open>web_routes\<close>, the \<^verbatim>\<open>output\<close> log and the \<^verbatim>\<open>call_stack\<close>; with it the heap of
  list and dict objects and the part of the host the interpreter reads: the files by path
  and the working directory. An entry of \<^verbatim>\<open>functions\<close> is the tuple
  \<^verbatim>\<open>(body, args_names, current_scope)\<close> with the scope as its index in the store, so
  that the tuple refers to the scope object and does not copy it. An entry of
  \<^verbatim>\<open>modules\<close> is the address of the module's \<^verbatim>\<open>exports\<close> dict. A frame of the call
  stack is kept as the procedure name and the argument values it is rendered from.
\<close>

record state =
  scopes :: "scope list"
  current_scope :: nat
  functions' :: "string \<rightharpoonup> (string list \<times> string list \<times> nat)"
  modules :: "string \<rightharpoonup> nat"
  web_routes :: "string \<rightharpoonup> string list"
  output' :: "string list"
  call_stack :: "(string \<times> val list) list"
  heap :: "obj list"
  files :: "string \<rightharpoonup> string"
  cwd :: string

definition MAX_RECURSION_DEPTH :: nat where
  "MAX_RECURSION_DEPTH = 1000"

text \<open>
  The outcome of running a piece of the interpreter: it returns a value, or it raises an
  exception, both in a new state; or the model stops, because the fuel of the recursion is
  used up (the run may not terminate) or because the step is host behaviour that the model
  does not cover. A stop is not an exception: no handler of the source sees it.
\<close>

datatype stuck = OutOfFuel | Unmodelled string

datatype 'a result = Ok 'a state | Raise exn state | Stuck stuck

fun bind :: "'a result \<Rightarrow> ('a \<Rightarrow> state \<Rightarrow> 'b result) \<Rightarrow> 'b result" where
  "bind (Ok v s) f = f v s"
| "bind (Raise e s) f = Raise e s"
| "bind (Stuck k) f = Stuck k"

text \<open>\<^verbatim>\<open>try: ... finally: ...\<close> where the handler only updates the state.\<close>

fun finally' :: "(state \<Rightarrow> state) \<Rightarrow> 'a result \<Rightarrow> 'a result" where
  "finally' h (Ok v s) = Ok v (h s)"
| "finally' h (Raise e s) = Raise e (h s)"
| "finally' h (Stuck k) = Stuck k"

text \<open>\<^verbatim>\<open>error(msg, line, file, context)\<close>: raise an \<^verbatim>\<open>ExoError\<close>.\<close>

definition error :: "message \<Rightarrow> nat option \<Rightarrow> string option \<Rightarrow> string option \<Rightarrow> state \<Rightarrow> 'a result" where
  "error m lnum file ctx s =
     Raise (Exo \<lparr>err_msg = m, err_line = lnum, err_file = file, err_context = ctx\<rparr>) s"

text \<open>The result of an operation of the host that does not touch the state.\<close>

datatype 'a pure = Val 'a | Exc pyexc | NoModel string

fun lift :: "'a pure \<Rightarrow> state \<Rightarrow> 'a result" where
  "lift (Val v) s = Ok v s"
| "lift (Exc e) s = Raise (Py e) s"
| "lift (NoModel m) s = Stuck (Unmodelled m)"

subsection \<open>The scope chain\<close>

text \<open>
  The methods of \<^verbatim>\<open>Scope\<close> walk the parent links. A scope object is created with its
  parent and the link never changes, so a parent is always an older object: its index in the
  store is smaller. The functions follow a link only under that condition, which makes them
  total on every store.
\<close>

function scope_get :: "scope list \<Rightarrow> nat \<Rightarrow> string \<Rightarrow> val pure" where
  "scope_get scs i n =
     (if i < length scs then
        (case map_of (scope_vars (scs ! i)) n of
           Some v \<Rightarrow> Val v
         | None \<Rightarrow>
            (case scope_parent (scs ! i) of
               Some p \<Rightarrow> if p < i then scope_get scs p n else Exc KeyError
             | None \<Rightarrow> Exc KeyError))
      else Exc KeyError)"
  by pat_completeness auto
termination
  by (relation "measure (\<lambda>(scs, i, n). i)") auto

function scope_exists :: "scope list \<Rightarrow> nat \<Rightarrow> string \<Rightarrow> bool" where
  "scope_exists scs i n =
     (if i < length scs then
        (case map_of (scope_vars (scs ! i)) n of
           Some v \<Rightarrow> True
         | None \<Rightarrow>
            (case scope_parent (scs ! i) of
               Some p \<Rightarrow> if p < i then scope_exists scs p n else False
             | None \<Rightarrow> False))
      else False)"
  by pat_completeness auto
termination
  by (relation "measure (\<lambda>(scs, i, n). i)") auto

function get_all_names :: "scope list \<Rightarrow> nat \<Rightarrow> string set" where
  "get_all_names scs i =
     (if i < length scs then
        set (map fst (scope_vars (scs ! i))) \<union>
        (case scope_parent (scs ! i) of
           Some p \<Rightarrow> if p < i then get_all_names scs p else {}
         | None \<Rightarrow> {})
      else {})"
  by pat_completeness auto
termination
  by (relation "measure (\<lambda>(scs, i). i)") auto

text \<open>\<^verbatim>\<open>self.vars[name] = value\<close> on scope \<open>i\<close> of the store.\<close>

definition write_var :: "scope list \<Rightarrow> nat \<Rightarrow> string \<Rightarrow> val \<Rightarrow> scope list" where
  "write_var scs i n v =
     scs[i := (scs ! i)\<lparr>scope_vars := AList.update n v (scope_vars (scs ! i))\<rparr>]"

text \<open>The \<^verbatim>\<open>while scope:\<close> loop of \<^verbatim>\<open>Scope.set\<close>: the nearest scope of the chain that
  has the name, if there is one.\<close>

function defining_scope :: "scope list \<Rightarrow> nat \<Rightarrow> string \<Rightarrow> nat option" where
  "defining_scope scs i n =
     (if i < length scs then
        (if n \<in> set (map fst (scope_vars (scs ! i))) then Some i
         else (case scope_parent (scs ! i) of
                 Some p \<Rightarrow> if p < i then defining_scope scs p n else None
               | None \<Rightarrow> None))
      else None)"
  by pat_completeness auto
termination
  by (relation "measure (\<lambda>(scs, i, n). i)") auto

text \<open>\<^verbatim>\<open>Scope.set(name, value, local)\<close>.\<close>

definition scope_set :: "scope list \<Rightarrow> nat \<Rightarrow> string \<Rightarrow> val \<Rightarrow> bool \<Rightarrow> scope list" where
  "scope_set scs i n v local =
     (if local \<or> n \<notin> get_all_names scs i then write_var scs i n v
      else (case defining_scope scs i n of
              Some j \<Rightarrow> write_var scs j n v
            | None \<Rightarrow> write_var scs i n v))"

text \<open>\<^verbatim>\<open>Scope(parent=p, name=nm)\<close>: a new object at the end of the store.\<close>

definition new_scope :: "nat option \<Rightarrow> string \<Rightarrow> state \<Rightarrow> nat \<times> state" where
  "new_scope p nm s =
     (length (scopes s),
      s\<lparr>scopes := scopes s @ [\<lparr>scope_parent = p, scope_name = nm, scope_vars = []\<rparr>]\<rparr>)"

subsection \<open>Numbers of the host\<close>

definition is_digit :: "char \<Rightarrow> bool" where
  "is_digit c = (48 \<le> (of_char c :: nat) \<and> (of_char c :: nat) \<le> 57)"

definition nat_of_digits :: "string \<Rightarrow> nat" where
  "nat_of_digits ds = foldl (\<lambda>a c. 10 * a + (of_char c - 48)) 0 ds"

text \<open>Python's \<^verbatim>\<open>digitpart\<close>: digits, with single underscores allowed between two digits.
  The result is the digits without the underscores.\<close>

fun digitpart :: "string \<Rightarrow> string option" where
  "digitpart [] = None"
| "digitpart [c] = (if is_digit c then Some [c] else None)"
| "digitpart (c # d # ds) =
     (if is_digit c
      then map_option (\<lambda>r. c # r) (digitpart (if d = CHR ''_'' then ds else d # ds))
      else None)"

definition split_sign :: "string \<Rightarrow> bool \<times> string" where
  "split_sign s =
     (case s of
        [] \<Rightarrow> (False, [])
      | c # cs \<Rightarrow> if c = CHR ''-'' then (True, cs) else if c = CHR ''+'' then (False, cs)
                 else (False, s))"

text \<open>\<^verbatim>\<open>int(s)\<close> on a string: \<open>None\<close> stands for the \<^verbatim>\<open>ValueError\<close>. (The limit that
  recent versions of the host put on the number of digits is not modelled.)\<close>

definition py_int :: "string \<Rightarrow> int option" where
  "py_int s =
     (case split_sign (strip s) of
        (neg, r) \<Rightarrow>
          (case digitpart r of
             None \<Rightarrow> None
           | Some ds \<Rightarrow> Some (if neg then - int (nat_of_digits ds) else int (nat_of_digits ds))))"

text \<open>Rounding to the nearest binary64 value, ties to even: the number of binary digits of
  a natural number, the powers of two and ten with integer exponents, and the rounding of a
  rational number whose magnitude is below the overflow threshold.\<close>

function bitlen :: "int \<Rightarrow> int" where
  "bitlen n = (if n \<le> 0 then 0 else 1 + bitlen (n div 2))"
  by pat_completeness auto
termination
  by (relation "measure nat") auto

definition pow2 :: "int \<Rightarrow> rat" where
  "pow2 k = (if 0 \<le> k then 2 ^ nat k else 1 / 2 ^ nat (- k))"

definition pow10 :: "int \<Rightarrow> rat" where
  "pow10 k = (if 0 \<le> k then 10 ^ nat k else 1 / 10 ^ nat (- k))"

definition round_half_even :: "rat \<Rightarrow> int" where
  "round_half_even q =
     (let f = \<lfloor>q\<rfloor>; d = q - of_int f
      in if d < 1 / 2 then f else if 1 / 2 < d then f + 1 else if even f then f else f + 1)"

definition binary_exponent :: "rat \<Rightarrow> int" where
  "binary_exponent a =
     (case quotient_of a of
        (n, d) \<Rightarrow>
          (let k = bitlen n - bitlen d
           in if pow2 k \<le> a then k else k - 1))"

definition round_double :: "rat \<Rightarrow> rat" where
  "round_double q =
     (if q = 0 then 0
      else let a = \<bar>q\<bar>;
               e = max (binary_exponent a) (- 1022);
               ulp = pow2 (e - 52);
               r = of_int (round_half_even (a / ulp)) * ulp
           in if q < 0 then - r else r)"

text \<open>A magnitude from here on rounds to \<open>2 ^ 1024\<close>, which is not a binary64 value.\<close>

definition double_overflow :: rat where
  "double_overflow = 2 ^ 1024 - 2 ^ 970"

text \<open>\<^verbatim>\<open>float(s)\<close> on a string: a finite value, a \<^verbatim>\<open>ValueError\<close>, or a result that is an
  infinity or a NaN.\<close>

datatype float_parse = FVal rat | FInvalid | FSpecial

definition lower :: "string \<Rightarrow> string" where
  "lower s = map (\<lambda>c. if 65 \<le> (of_char c :: nat) \<and> (of_char c :: nat) \<le> 90
                       then char_of (of_char c + (32 :: nat)) else c) s"

text \<open>The mantissa \<^verbatim>\<open>[digitpart] "." digitpart | digitpart ["."]\<close>: its digits as a
  number and the count of digits after the point.\<close>

definition parse_mantissa :: "string \<Rightarrow> (nat \<times> nat) option" where
  "parse_mantissa m =
     (if CHR ''.'' \<in> set m then
        (case split1 CHR ''.'' m of
           (a, b) \<Rightarrow>
             (if a = [] \<and> b = [] then None
              else case (if a = [] then Some [] else digitpart a,
                         if b = [] then Some [] else digitpart b) of
                     (Some da, Some db) \<Rightarrow> Some (nat_of_digits (da @ db), length db)
                   | _ \<Rightarrow> None))
      else map_option (\<lambda>da. (nat_of_digits da, 0)) (digitpart m))"

definition parse_exponent :: "string \<Rightarrow> int option" where
  "parse_exponent x =
     (case split_sign x of
        (neg, r) \<Rightarrow>
          map_option (\<lambda>ds. if neg then - int (nat_of_digits ds) else int (nat_of_digits ds))
            (digitpart r))"

definition py_float :: "string \<Rightarrow> float_parse" where
  "py_float s =
     (case split_sign (strip s) of
        (neg, r) \<Rightarrow>
          (if lower r \<in> {''inf'', ''infinity'', ''nan''} then FSpecial
           else let m = takeWhile (\<lambda>c. c \<noteq> CHR ''e'' \<and> c \<noteq> CHR ''E'') r;
                    x = dropWhile (\<lambda>c. c \<noteq> CHR ''e'' \<and> c \<noteq> CHR ''E'') r
                in case (parse_mantissa m, if x = [] then Some 0 else parse_exponent (tl x)) of
                     (Some (digs, nfrac), Some ex) \<Rightarrow>
                       (let a = of_nat digs * pow10 (ex - int nfrac)
                        in if double_overflow \<le> a then FSpecial
                           else FVal (round_double (if neg then - a else a)))
                   | _ \<Rightarrow> FInvalid))"

text \<open>\<^verbatim>\<open>is_number\<close>: whether \<^verbatim>\<open>float(s)\<close> returns.\<close>

definition is_number :: "string \<Rightarrow> bool" where
  "is_number s = (py_float s \<noteq> FInvalid)"

subsection \<open>Operations of the host on values\<close>

text \<open>
  What Python does when the interpreter applies an operator to two values. Arithmetic on
  \<open>None\<close>, booleans, integers, strings and lists is modelled in full; arithmetic with a
  float operand, other than the test against zero and the division of two integers, is
  floating-point arithmetic of the host and stops the model, as do \<^verbatim>\<open>%\<close> on a string
  (string formatting) and the comparison of two different container objects.
\<close>

definition deref :: "state \<Rightarrow> nat \<Rightarrow> obj option" where
  "deref s a = (if a < length (heap s) then Some (heap s ! a) else None)"

definition alloc :: "obj \<Rightarrow> state \<Rightarrow> nat \<times> state" where
  "alloc ob s = (length (heap s), s\<lparr>heap := heap s @ [ob]\<rparr>)"

definition store :: "nat \<Rightarrow> obj \<Rightarrow> state \<Rightarrow> state" where
  "store a ob s = s\<lparr>heap := (heap s)[a := ob]\<rparr>"

fun int_of :: "val \<Rightarrow> int option" where
  "int_of (VBool b) = Some (if b then 1 else 0)"
| "int_of (VInt i) = Some i"
| "int_of _ = None"

fun num_of :: "val \<Rightarrow> rat option" where
  "num_of (VBool b) = Some (if b then 1 else 0)"
| "num_of (VInt i) = Some (of_int i)"
| "num_of (VFloat r) = Some r"
| "num_of _ = None"

text \<open>The truth value of an object, as \<^verbatim>\<open>if\<close>, \<^verbatim>\<open>not\<close>, \<^verbatim>\<open>any\<close> and \<^verbatim>\<open>all\<close> take it.\<close>

fun truthy :: "state \<Rightarrow> val \<Rightarrow> bool" where
  "truthy s VNone = False"
| "truthy s (VBool b) = b"
| "truthy s (VInt i) = (i \<noteq> 0)"
| "truthy s (VFloat r) = (r \<noteq> 0)"
| "truthy s (VStr x) = (x \<noteq> [])"
| "truthy s (VList a) = (case deref s a of Some (OList xs) \<Rightarrow> xs \<noteq> [] | _ \<Rightarrow> True)"
| "truthy s (VDict a) = (case deref s a of Some (ODict kvs) \<Rightarrow> kvs \<noteq> [] | _ \<Rightarrow> True)"

text \<open>\<^verbatim>\<open>a == b\<close>. Numbers compare by value across bool, int and float.\<close>

definition py_eq :: "val \<Rightarrow> val \<Rightarrow> bool pure" where
  "py_eq a b =
     (case (num_of a, num_of b) of
        (Some x, Some y) \<Rightarrow> Val (x = y)
      | (None, None) \<Rightarrow>
          (case (a, b) of
             (VNone, VNone) \<Rightarrow> Val True
           | (VStr x, VStr y) \<Rightarrow> Val (x = y)
           | (VList x, VList y) \<Rightarrow> if x = y then Val True else NoModel ''list comparison''
           | (VDict x, VDict y) \<Rightarrow> if x = y then Val True else NoModel ''dict comparison''
           | _ \<Rightarrow> Val False)
      | _ \<Rightarrow> Val False)"

fun str_lt :: "string \<Rightarrow> string \<Rightarrow> bool" where
  "str_lt [] [] = False"
| "str_lt [] (y # ys) = True"
| "str_lt (x # xs) [] = False"
| "str_lt (x # xs) (y # ys) =
     ((of_char x :: nat) < of_char y \<or> (x = y \<and> str_lt xs ys))"

text \<open>\<^verbatim>\<open>a < b\<close>; the other three orderings are written with it.\<close>

definition py_lt :: "val \<Rightarrow> val \<Rightarrow> bool pure" where
  "py_lt a b =
     (case (num_of a, num_of b) of
        (Some x, Some y) \<Rightarrow> Val (x < y)
      | _ \<Rightarrow>
          (case (a, b) of
             (VStr x, VStr y) \<Rightarrow> Val (str_lt x y)
           | (VList x, VList y) \<Rightarrow> NoModel ''list comparison''
           | _ \<Rightarrow> Exc TypeError))"

definition py_le :: "val \<Rightarrow> val \<Rightarrow> bool pure" where
  "py_le a b =
     (case (num_of a, num_of b) of
        (Some x, Some y) \<Rightarrow> Val (x \<le> y)
      | _ \<Rightarrow>
          (case (a, b) of
             (VStr x, VStr y) \<Rightarrow> Val (\<not> str_lt y x)
           | (VList x, VList y) \<Rightarrow> NoModel ''list comparison''
           | _ \<Rightarrow> Exc TypeError))"

fun map_pure :: "('a \<Rightarrow> 'b) \<Rightarrow> 'a pure \<Rightarrow> 'b pure" where
  "map_pure f (Val v) = Val (f v)"
| "map_pure f (Exc e) = Exc e"
| "map_pure f (NoModel m) = NoModel m"

text \<open>The table \<^verbatim>\<open>ops\<close> of \<^verbatim>\<open>eval_arith\<close>.\<close>

definition compare :: "string \<Rightarrow> val \<Rightarrow> val \<Rightarrow> val pure" where
  "compare op a b =
     map_pure VBool
       (if op = ''=='' then py_eq a b
        else if op = ''!='' then map_pure Not (py_eq a b)
        else if op = ''>='' then py_le b a
        else if op = ''<='' then py_le a b
        else if op = ''>'' then py_lt b a
        else py_lt a b)"

text \<open>\<^verbatim>\<open>result + val\<close>.\<close>

definition py_add :: "val \<Rightarrow> val \<Rightarrow> state \<Rightarrow> val result" where
  "py_add a b s =
     (case (int_of a, int_of b) of
        (Some x, Some y) \<Rightarrow> Ok (VInt (x + y)) s
      | _ \<Rightarrow>
        (case (num_of a, num_of b) of
           (Some x, Some y) \<Rightarrow> Stuck (Unmodelled ''float arithmetic'')
         | _ \<Rightarrow>
           (case (a, b) of
              (VStr x, VStr y) \<Rightarrow> Ok (VStr (x @ y)) s
            | (VList x, VList y) \<Rightarrow>
                (case (deref s x, deref s y) of
                   (Some (OList xs), Some (OList ys)) \<Rightarrow>
                     (case alloc (OList (xs @ ys)) s of (r, s') \<Rightarrow> Ok (VList r) s')
                 | _ \<Rightarrow> Stuck (Unmodelled ''dangling reference''))
            | _ \<Rightarrow> Raise (Py TypeError) s)))"

text \<open>\<^verbatim>\<open>result - val\<close>.\<close>

definition py_sub :: "val \<Rightarrow> val \<Rightarrow> state \<Rightarrow> val result" where
  "py_sub a b s =
     (case (int_of a, int_of b) of
        (Some x, Some y) \<Rightarrow> Ok (VInt (x - y)) s
      | _ \<Rightarrow>
        (case (num_of a, num_of b) of
           (Some x, Some y) \<Rightarrow> Stuck (Unmodelled ''float arithmetic'')
         | _ \<Rightarrow> Raise (Py TypeError) s))"

text \<open>\<^verbatim>\<open>result *= val\<close>. On a list the augmented assignment works in place: the object
  that \<open>result\<close> refers to is changed, under every name it has.\<close>

definition py_imul :: "val \<Rightarrow> val \<Rightarrow> state \<Rightarrow> val result" where
  "py_imul a b s =
     (case (int_of a, int_of b) of
        (Some x, Some y) \<Rightarrow> Ok (VInt (x * y)) s
      | _ \<Rightarrow>
        (case (num_of a, num_of b) of
           (Some x, Some y) \<Rightarrow> Stuck (Unmodelled ''float arithmetic'')
         | _ \<Rightarrow>
           (case (a, int_of b, int_of a, b) of
              (VStr x, Some n, _, _) \<Rightarrow> Ok (VStr (concat (replicate (nat n) x))) s
            | (_, _, Some n, VStr x) \<Rightarrow> Ok (VStr (concat (replicate (nat n) x))) s
            | (VList x, Some n, _, _) \<Rightarrow>
                (case deref s x of
                   Some (OList xs) \<Rightarrow>
                     Ok (VList x) (store x (OList (concat (replicate (nat n) xs))) s)
                 | _ \<Rightarrow> Stuck (Unmodelled ''dangling reference''))
            | (_, _, Some n, VList x) \<Rightarrow>
                (case deref s x of
                   Some (OList xs) \<Rightarrow>
                     (case alloc (OList (concat (replicate (nat n) xs))) s of
                        (r, s') \<Rightarrow> Ok (VList r) s')
                 | _ \<Rightarrow> Stuck (Unmodelled ''dangling reference''))
            | _ \<Rightarrow> Raise (Py TypeError) s)))"

text \<open>\<^verbatim>\<open>result /= val\<close>. The quotient of two integers is the nearest float; the host
  raises \<^verbatim>\<open>OverflowError\<close> when that would be beyond the largest float.\<close>

definition py_truediv :: "val \<Rightarrow> val \<Rightarrow> state \<Rightarrow> val result" where
  "py_truediv a b s =
     (case (int_of a, int_of b) of
        (Some x, Some y) \<Rightarrow>
          (if y = 0 then Raise (Py ZeroDivisionError) s
           else if double_overflow * \<bar>of_int y\<bar> \<le> \<bar>of_int x\<bar> then Raise (Py OverflowError) s
           else Ok (VFloat (round_double (of_int x / of_int y))) s)
      | _ \<Rightarrow>
        (case (num_of a, num_of b) of
           (Some x, Some y) \<Rightarrow>
             (if y = 0 then Raise (Py ZeroDivisionError) s
              else Stuck (Unmodelled ''float arithmetic''))
         | _ \<Rightarrow> Raise (Py TypeError) s))"

text \<open>The decimal text of an integer, \<^verbatim>\<open>str(i)\<close>.\<close>

function digits_of :: "int \<Rightarrow> string" where
  "digits_of n =
     (if n < 10 then [char_of (48 + n)]
      else digits_of (n div 10) @ [char_of (48 + n mod 10)])"
  by pat_completeness auto
termination
  by (relation "measure nat") auto

definition str_of_int :: "int \<Rightarrow> string" where
  "str_of_int i = (if i < 0 then CHR ''-'' # digits_of (- i) else digits_of i)"

text \<open>
  \<^verbatim>\<open>result %= val\<close>. Python's remainder takes the sign of the divisor, as \<open>mod\<close> on
  \<^typ>\<open>int\<close> does. With a string on the left the operator is the host's string
  formatting, which divides nothing: with an integer (or a boolean) on the right, a format
  without a \<^verbatim>\<open>%\<close> raises \<^verbatim>\<open>TypeError\<close> (not all arguments converted), and the format
  \<^verbatim>\<open>%d\<close> gives the decimal text of the integer. The other formats are not modelled.
\<close>

definition py_mod :: "val \<Rightarrow> val \<Rightarrow> state \<Rightarrow> val result" where
  "py_mod a b s =
     (case (int_of a, int_of b) of
        (Some x, Some y) \<Rightarrow>
          (if y = 0 then Raise (Py ZeroDivisionError) s else Ok (VInt (x mod y)) s)
      | _ \<Rightarrow>
        (case (num_of a, num_of b) of
           (Some x, Some y) \<Rightarrow>
             (if y = 0 then Raise (Py ZeroDivisionError) s
              else Stuck (Unmodelled ''float arithmetic''))
         | _ \<Rightarrow>
           (case a of
              VStr x \<Rightarrow>
                (case int_of b of
                   Some y \<Rightarrow>
                     (if CHR ''%'' \<notin> set x then Raise (Py TypeError) s
                      else if x = ''%d'' then Ok (VStr (str_of_int y)) s
                      else Stuck (Unmodelled ''string formatting''))
                 | None \<Rightarrow> Stuck (Unmodelled ''string formatting''))
            | _ \<Rightarrow> Raise (Py TypeError) s)))"

text \<open>\<^verbatim>\<open>a ** b\<close>.\<close>

definition py_pow :: "val \<Rightarrow> val \<Rightarrow> state \<Rightarrow> val result" where
  "py_pow a b s =
     (case (int_of a, int_of b) of
        (Some x, Some y) \<Rightarrow>
          (if 0 \<le> y then Ok (VInt (x ^ nat y)) s
           else if x = 0 then Raise (Py ZeroDivisionError) s
           else Stuck (Unmodelled ''float arithmetic''))
      | _ \<Rightarrow>
        (case (num_of a, num_of b) of
           (Some x, Some y) \<Rightarrow> Stuck (Unmodelled ''float arithmetic'')
         | _ \<Rightarrow> Raise (Py TypeError) s))"

text \<open>\<^verbatim>\<open>str(v)\<close>. The text of a float and of a container is not modelled.\<close>

fun py_str :: "val \<Rightarrow> string pure" where
  "py_str VNone = Val ''None''"
| "py_str (VBool b) = Val (if b then ''True'' else ''False'')"
| "py_str (VInt i) = Val (str_of_int i)"
| "py_str (VStr x) = Val x"
| "py_str (VFloat r) = NoModel ''text of a float''"
| "py_str (VList a) = NoModel ''text of a list''"
| "py_str (VDict a) = NoModel ''text of a dict''"

text \<open>\<^verbatim>\<open>type(v).__name__\<close>.\<close>

fun type_name :: "val \<Rightarrow> string" where
  "type_name VNone = ''NoneType''"
| "type_name (VBool b) = ''bool''"
| "type_name (VInt i) = ''int''"
| "type_name (VFloat r) = ''float''"
| "type_name (VStr x) = ''str''"
| "type_name (VList a) = ''list''"
| "type_name (VDict a) = ''dict''"

text \<open>Dict objects: a key must be hashable (lists and dicts are not), keys are looked up
  by \<^verbatim>\<open>==\<close>, an assignment to a key that is present keeps the key and its place.\<close>

fun hashable :: "val \<Rightarrow> bool" where
  "hashable (VList a) = False"
| "hashable (VDict a) = False"
| "hashable _ = True"

definition key_eq :: "val \<Rightarrow> val \<Rightarrow> bool" where
  "key_eq a b = (py_eq a b = Val True)"

fun dict_get :: "(val \<times> val) list \<Rightarrow> val \<Rightarrow> val option" where
  "dict_get [] k = None"
| "dict_get ((k', v) # kvs) k = (if key_eq k' k then Some v else dict_get kvs k)"

fun dict_set :: "(val \<times> val) list \<Rightarrow> val \<Rightarrow> val \<Rightarrow> (val \<times> val) list" where
  "dict_set [] k v = [(k, v)]"
| "dict_set ((k', v') # kvs) k v =
     (if key_eq k' k then (k', v) # kvs else (k', v') # dict_set kvs k v)"

text \<open>The position that the index \<open>i\<close> names in a sequence of length \<open>n\<close>.\<close>

definition seq_index :: "nat \<Rightarrow> int \<Rightarrow> nat option" where
  "seq_index n i =
     (let j = (if i < 0 then int n + i else i)
      in if 0 \<le> j \<and> j < int n then Some (nat j) else None)"

text \<open>\<^verbatim>\<open>var[idx]\<close>.\<close>

definition getitem :: "val \<Rightarrow> val \<Rightarrow> state \<Rightarrow> val result" where
  "getitem var idx s =
     (case var of
        VList a \<Rightarrow>
          (case deref s a of
             Some (OList xs) \<Rightarrow>
               (case int_of idx of
                  Some i \<Rightarrow>
                    (case seq_index (length xs) i of
                       Some j \<Rightarrow> Ok (xs ! j) s
                     | None \<Rightarrow> Raise (Py IndexError) s)
                | None \<Rightarrow> Raise (Py TypeError) s)
           | _ \<Rightarrow> Stuck (Unmodelled ''dangling reference''))
      | VDict a \<Rightarrow>
          (case deref s a of
             Some (ODict kvs) \<Rightarrow>
               (if hashable idx
                then (case dict_get kvs idx of
                        Some v \<Rightarrow> Ok v s
                      | None \<Rightarrow> Raise (Py KeyError) s)
                else Raise (Py TypeError) s)
           | _ \<Rightarrow> Stuck (Unmodelled ''dangling reference''))
      | VStr x \<Rightarrow>
          (case int_of idx of
             Some i \<Rightarrow>
               (case seq_index (length x) i of
                  Some j \<Rightarrow> Ok (VStr [x ! j]) s
                | None \<Rightarrow> Raise (Py IndexError) s)
           | None \<Rightarrow> Raise (Py TypeError) s)
      | _ \<Rightarrow> Raise (Py TypeError) s)"

text \<open>\<^verbatim>\<open>var[idx] = v\<close>.\<close>

definition setitem :: "val \<Rightarrow> val \<Rightarrow> val \<Rightarrow> state \<Rightarrow> unit result" where
  "setitem var idx v s =
     (case var of
        VList a \<Rightarrow>
          (case deref s a of
             Some (OList xs) \<Rightarrow>
               (case int_of idx of
                  Some i \<Rightarrow>
                    (case seq_index (length xs) i of
                       Some j \<Rightarrow> Ok () (store a (OList (xs[j := v])) s)
                     | None \<Rightarrow> Raise (Py IndexError) s)
                | None \<Rightarrow> Raise (Py TypeError) s)
           | _ \<Rightarrow> Stuck (Unmodelled ''dangling reference''))
      | VDict a \<Rightarrow>
          (case deref s a of
             Some (ODict kvs) \<Rightarrow>
               (if hashable idx then Ok () (store a (ODict (dict_set kvs idx v)) s)
                else Raise (Py TypeError) s)
           | _ \<Rightarrow> Stuck (Unmodelled ''dangling reference''))
      | _ \<Rightarrow> Raise (Py TypeError) s)"

subsection \<open>Expression parsing\<close>

text \<open>
  \<^verbatim>\<open>split_by_op\<close>. The loop of the source walks an index over the expression; the model
  walks the rest of the expression and carries the last character passed (\<^verbatim>\<open>expr[i-1]\<close>).
  Where the source jumps over an operator (\<^verbatim>\<open>i += len(op)\<close>), the model counts down the
  characters of the operator that are still to be passed. (An empty operator, which the
  source never passes, would make the loop of the source run forever; the model does not
  split on it.)
\<close>

fun split_loop ::
  "string \<Rightarrow> nat \<Rightarrow> char option \<Rightarrow> int \<Rightarrow> bool \<Rightarrow> char option \<Rightarrow> string \<Rightarrow> string list \<Rightarrow> string
   \<Rightarrow> string list" where
  "split_loop op skip prev depth in_string string_char current parts [] =
     (if strip current \<noteq> [] then parts @ [strip current] else parts)"
| "split_loop op skip prev depth in_string string_char current parts (c # cs) =
     (if 0 < skip then
        split_loop op (skip - 1) (Some c) depth in_string string_char current parts cs
      else if (c = CHR 0x22 \<or> c = CHR 0x27) \<and> prev \<noteq> Some (CHR 0x5C) then
        (if \<not> in_string then
           split_loop op 0 (Some c) depth True (Some c) (current @ [c]) parts cs
         else if Some c = string_char then
           split_loop op 0 (Some c) depth False string_char (current @ [c]) parts cs
         else split_loop op 0 (Some c) depth in_string string_char (current @ [c]) parts cs)
      else if in_string then
        split_loop op 0 (Some c) depth in_string string_char (current @ [c]) parts cs
      else
        (let depth' = (if c \<in> set ''([{'' then depth + 1
                       else if c \<in> set '')]}'' then depth - 1 else depth)
         in if depth' = 0 \<and> op \<noteq> [] \<and> startswith (c # cs) op then
              split_loop op (length op - 1) (Some c) depth' in_string string_char []
                (if strip current \<noteq> [] then parts @ [strip current] else parts) cs
            else
              split_loop op 0 (Some c) depth' in_string string_char (current @ [c]) parts cs))"

definition split_by_op :: "string \<Rightarrow> string \<Rightarrow> string list" where
  "split_by_op expr op =
     (let parts = split_loop op 0 None 0 False None [] [] expr
      in if 1 < length parts then parts else [expr])"

text \<open>The scan for outer parentheses at the head of \<^verbatim>\<open>eval_arith\<close>: \<open>paren_valid\<close> is the
  \<^verbatim>\<open>for\<close> loop that computes \<^verbatim>\<open>valid\<close>, \<open>strip_parens\<close> the \<^verbatim>\<open>while\<close> loop around
  it.\<close>

fun paren_valid :: "int \<Rightarrow> string \<Rightarrow> bool" where
  "paren_valid depth [] = True"
| "paren_valid depth (c # cs) =
     (let depth' = (if c = CHR ''('' then depth + 1
                    else if c = CHR '')'' then depth - 1 else depth)
      in if depth' = 0 \<and> cs \<noteq> [] then False else paren_valid depth' cs)"

lemma length_strip_le: "length (strip x) \<le> length x"
proof -
  have "length (dropWhile is_space (rev (dropWhile is_space x))) \<le> length (rev (dropWhile is_space x))"
    by (rule length_dropWhile_le)
  also have "\<dots> \<le> length x"
    by (simp add: length_dropWhile_le)
  finally show ?thesis
    by (simp add: strip_def rstrip_def lstrip_def)
qed

function strip_parens :: "string \<Rightarrow> string" where
  "strip_parens expr =
     (if startswith expr ''('' \<and> endswith expr '')'' \<and> paren_valid 0 expr
      then strip_parens (strip (inner expr)) else expr)"
  by pat_completeness auto
termination
proof (relation "measure length")
  show "wf (measure length)" by simp
next
  fix expr :: string
  assume a: "startswith expr ''('' \<and> endswith expr '')'' \<and> paren_valid 0 expr"
  then have ne: "expr \<noteq> []" by (auto simp: startswith_def)
  have "length (strip (inner expr)) \<le> length (inner expr)" by (rule length_strip_le)
  also have "\<dots> < length expr" using ne by (cases expr) (auto simp: inner_def)
  finally show "(strip (inner expr), expr) \<in> measure length" by simp
qed

text \<open>The \<^verbatim>\<open>for sep in [...]\<close> loops of \<^verbatim>\<open>eval_arith\<close>: the first operator of the list
  whose split has a number of parts that the test accepts, with the parts.\<close>

fun first_split :: "(nat \<Rightarrow> bool) \<Rightarrow> string \<Rightarrow> string list \<Rightarrow> (string \<times> string list) option" where
  "first_split ok expr [] = None"
| "first_split ok expr (op # ops) =
     (let parts = split_by_op expr op
      in if ok (length parts) then Some (op, parts) else first_split ok expr ops)"

text \<open>The scan shared by list literals, dict literals and \<^verbatim>\<open>parse_args\<close>: the loop over
  \<^verbatim>\<open>inner + ','\<close> that cuts the text at the commas outside strings and brackets. It
  yields the stripped, non-empty pieces. (In the source the pieces of a list literal and
  of an argument list are evaluated as the scan finds them; the scan itself has no effect,
  so the model scans first and evaluates the pieces in the same order afterwards.)\<close>

fun items_loop ::
  "int \<Rightarrow> bool \<Rightarrow> char option \<Rightarrow> string \<Rightarrow> string list \<Rightarrow> string \<Rightarrow> string list" where
  "items_loop depth in_string string_char current acc [] = acc"
| "items_loop depth in_string string_char current acc (c # cs) =
     (let quote = ((c = CHR 0x22 \<or> c = CHR 0x27) \<and> (current = [] \<or> last current \<noteq> CHR 0x5C));
          in_string' = (if quote then (if \<not> in_string then True
                                       else if Some c = string_char then False else in_string)
                        else in_string);
          string_char' = (if quote \<and> \<not> in_string then Some c else string_char)
      in if \<not> in_string' then
           (let depth' = (if c \<in> set ''[{('' then depth + 1
                          else if c \<in> set '']})'' then depth - 1 else depth)
            in if c = CHR '','' \<and> depth' = 0 then
                 items_loop depth' in_string' string_char' []
                   (if strip current \<noteq> [] then acc @ [strip current] else acc) cs
               else items_loop depth' in_string' string_char' (current @ [c]) acc cs)
         else items_loop depth in_string' string_char' (current @ [c]) acc cs)"

definition split_items :: "string \<Rightarrow> string list" where
  "split_items s = items_loop 0 False None [] [] (s @ '','')"

text \<open>\<^verbatim>\<open>sub in s\<close> and \<^verbatim>\<open>s.split(sub, 1)\<close> for a separator of several characters.\<close>

fun contains :: "string \<Rightarrow> string \<Rightarrow> bool" where
  "contains [] sub = (sub = [])"
| "contains (c # cs) sub = (startswith (c # cs) sub \<or> contains cs sub)"

fun split1_str :: "string \<Rightarrow> string \<Rightarrow> string \<times> string" where
  "split1_str sub [] = ([], [])"
| "split1_str sub (c # cs) =
     (if startswith (c # cs) sub then ([], drop (length sub) (c # cs))
      else case split1_str sub cs of (a, b) \<Rightarrow> (c # a, b))"

text \<open>\<^verbatim>\<open>s[a:s.find(c)]\<close>: where \<open>c\<close> does not occur, \<^verbatim>\<open>find\<close> is -1 and the slice ends
  before the last character.\<close>

definition slice_to_find :: "string \<Rightarrow> nat \<Rightarrow> char \<Rightarrow> string" where
  "slice_to_find s a c =
     slice s a (case find_char c s of Some k \<Rightarrow> k | None \<Rightarrow> length s - 1)"

subsection \<open>Paths of the host\<close>

text \<open>\<^verbatim>\<open>os.path.join\<close>, \<^verbatim>\<open>os.path.dirname\<close> and \<^verbatim>\<open>os.path.abspath\<close> of a POSIX host,
  for two arguments and the working directory of the state.\<close>

definition path_join :: "string \<Rightarrow> string \<Rightarrow> string" where
  "path_join a b =
     (if startswith b ''/'' then b
      else if a = [] \<or> endswith a ''/'' then a @ b
      else a @ ''/'' @ b)"

definition dirname :: "string \<Rightarrow> string" where
  "dirname p =
     (case rfind_char CHR ''/'' p of
        None \<Rightarrow> []
      | Some k \<Rightarrow>
          (let head = take (Suc k) p
           in if list_all (\<lambda>c. c = CHR ''/'') head then head
              else rev (dropWhile (\<lambda>c. c = CHR ''/'') (rev head))))"

fun norm_comps :: "bool \<Rightarrow> string list \<Rightarrow> string list \<Rightarrow> string list" where
  "norm_comps rooted new_comps [] = new_comps"
| "norm_comps rooted new_comps (cmp # comps) =
     (if cmp = [] \<or> cmp = ''.'' then norm_comps rooted new_comps comps
      else if cmp \<noteq> ''..'' \<or> (\<not> rooted \<and> new_comps = []) \<or>
              (new_comps \<noteq> [] \<and> last new_comps = ''..'')
        then norm_comps rooted (new_comps @ [cmp]) comps
      else if new_comps \<noteq> [] then norm_comps rooted (butlast new_comps) comps
      else norm_comps rooted new_comps comps)"

fun join_slash :: "string list \<Rightarrow> string" where
  "join_slash [] = []"
| "join_slash [x] = x"
| "join_slash (x # y # ys) = x @ ''/'' @ join_slash (y # ys)"

definition normpath :: "string \<Rightarrow> string" where
  "normpath p =
     (if p = [] then ''.''
      else let slashes = (if startswith p ''/'' then
                            (if startswith p ''//'' \<and> \<not> startswith p ''///'' then 2 else 1)
                          else 0 :: nat);
               r = replicate slashes CHR ''/'' @
                     join_slash (norm_comps (0 < slashes) [] (split_char CHR ''/'' p))
           in if r = [] then ''.'' else r)"

definition abspath :: "string \<Rightarrow> string \<Rightarrow> string" where
  "abspath wd p = normpath (if startswith p ''/'' then p else path_join wd p)"

subsection \<open>The evaluator\<close>

text \<open>
  The functions of the interpreter call each other in a cycle, and a program of the
  language can run forever. Each function of the source is therefore one definition that
  takes, as its first argument, the functions it calls back into: the record below. The
  cycle is closed further down by recursion on a fuel, the depth of nested calls the run may
  use; with no fuel left a call stops the model with \<open>OutOfFuel\<close>. The loops
  \<^verbatim>\<open>while\<close> and \<^verbatim>\<open>for\<close> of \<^verbatim>\<open>run\<close> are in the record too, one level of fuel for each
  iteration.
\<close>

type_synonym evaluator = "string \<Rightarrow> nat option \<Rightarrow> string option \<Rightarrow> state \<Rightarrow> val result"

record interp =
  rec_eval_arith :: evaluator
  rec_evaluate :: evaluator
  rec_run :: "string list \<Rightarrow> string option \<Rightarrow> state \<Rightarrow> val result"
  rec_while :: "string \<Rightarrow> nat option \<Rightarrow> string option \<Rightarrow> string list \<Rightarrow> state \<Rightarrow> val option result"
  rec_for :: "string \<Rightarrow> val \<Rightarrow> nat \<Rightarrow> nat \<Rightarrow> string list \<Rightarrow> string option \<Rightarrow> state \<Rightarrow> val option result"

lemma bind_cong [fundef_cong]:
  "r = r' \<Longrightarrow> (\<And>v s. r' = Ok v s \<Longrightarrow> f v s = f' v s) \<Longrightarrow> bind r f = bind r' f'"
  by (cases r') auto

text \<open>\<^verbatim>\<open>get_builtin_functions\<close>, without the Arabic names.\<close>

definition get_builtin_functions :: "string list" where
  "get_builtin_functions =
     [''print'', ''input'', ''len'', ''type'', ''str'', ''int'', ''float'', ''sqrt'', ''pow'',
      ''random'', ''range'', ''push'', ''pop'', ''readFile'', ''writeFile'', ''fileExists'',
      ''deleteFile'', ''sleep'', ''json'', ''parseJson'', ''html'', ''import'', ''export'',
      ''keys'', ''values'', ''abs'', ''round'', ''floor'', ''ceil'', ''max'', ''min'', ''sum'',
      ''join'', ''split'']"

text \<open>Evaluating the pieces of an argument list or of a list literal in order.\<close>

fun eval_each :: "interp \<Rightarrow> string list \<Rightarrow> nat option \<Rightarrow> string option \<Rightarrow> state \<Rightarrow> val list result" where
  "eval_each R [] lnum file s = Ok [] s"
| "eval_each R (x # xs) lnum file s =
     bind (rec_evaluate R x lnum file s) (\<lambda>v s1.
       bind (eval_each R xs lnum file s1) (\<lambda>vs s2. Ok (v # vs) s2))"

text \<open>\<^verbatim>\<open>parse_args\<close>.\<close>

definition parse_args :: "interp \<Rightarrow> string \<Rightarrow> nat option \<Rightarrow> string option \<Rightarrow> state \<Rightarrow> val list result" where
  "parse_args R args_str lnum file s =
     (if args_str = [] then Ok [] s else eval_each R (split_items args_str) lnum file s)"

text \<open>\<^verbatim>\<open>import_module\<close>. \<open>module_file\<close> is the path with the extension added, \<open>full_path\<close>
  the path the module is looked up and cached under (\<^verbatim>\<open>if file:\<close> is false for \<open>None\<close>
  and for the empty string). The files the host can open are the map \<open>files\<close> of the
  state.\<close>

definition module_file :: "string \<Rightarrow> string" where
  "module_file p = (if endswith p ''.exo'' then p else p @ ''.exo'')"

definition full_path :: "state \<Rightarrow> string option \<Rightarrow> string \<Rightarrow> string" where
  "full_path s file module_path =
     (case file of
        Some f \<Rightarrow> if f \<noteq> [] then path_join (dirname (abspath (cwd s) f)) module_path
                  else module_path
      | None \<Rightarrow> module_path)"

definition import_module :: "interp \<Rightarrow> val \<Rightarrow> nat option \<Rightarrow> string option \<Rightarrow> state \<Rightarrow> val result" where
  "import_module R arg lnum file s =
     (case arg of
        VStr p \<Rightarrow>
          (case modules s (full_path s file (module_file p)) of
             Some a \<Rightarrow> Ok (VDict a) s
           | None \<Rightarrow>
              (case files s (full_path s file (module_file p)) of
                 None \<Rightarrow> error (Msg (''File '' @ [CHR 0x27] @ module_file p @ [CHR 0x27] @ '' not found''))
                          lnum file None s
               | Some code \<Rightarrow>
                  (case alloc (ODict []) s of
                     (a, s1) \<Rightarrow>
                       (let s2 = s1\<lparr>modules := (modules s1)(full_path s file (module_file p) \<mapsto> a)\<rparr>;
                            old_scope = current_scope s2
                        in case new_scope (Some 0) (''module:'' @ module_file p) s2 of
                             (module_scope, s3) \<Rightarrow>
                               (case finally' (\<lambda>t. t\<lparr>current_scope := old_scope\<rparr>)
                                       (rec_run R (split_char CHR 0x0A code)
                                          (Some (full_path s file (module_file p)))
                                          (s3\<lparr>current_scope := module_scope\<rparr>)) of
                                  Ok r s4 \<Rightarrow>
                                    (case modules s4 (full_path s file (module_file p)) of
                                       Some a' \<Rightarrow> Ok (VDict a') s4
                                     | None \<Rightarrow> error (Failed_to_load KeyError) lnum file None s4)
                                | Raise (Exo e) s4 \<Rightarrow> Raise (Exo e) s4
                                | Raise (Py x) s4 \<Rightarrow> error (Failed_to_load x) lnum file None s4
                                | Stuck k \<Rightarrow> Stuck k)))))
      | _ \<Rightarrow> Raise (Py AttributeError) s)"

text \<open>Conversions used by the built-ins: \<^verbatim>\<open>float(v)\<close> and \<^verbatim>\<open>int(v)\<close> on a value.\<close>

definition truncate :: "rat \<Rightarrow> int" where
  "truncate r = (if r < 0 then - \<lfloor>- r\<rfloor> else \<lfloor>r\<rfloor>)"

definition float_of_int :: "int \<Rightarrow> rat pure" where
  "float_of_int i =
     (if double_overflow \<le> \<bar>of_int i\<bar> then Exc OverflowError else Val (round_double (of_int i)))"

fun to_float :: "val \<Rightarrow> rat pure" where
  "to_float (VBool b) = Val (if b then 1 else 0)"
| "to_float (VInt i) = float_of_int i"
| "to_float (VFloat r) = Val r"
| "to_float (VStr x) =
     (case py_float x of FVal r \<Rightarrow> Val r | FInvalid \<Rightarrow> Exc ValueError
      | FSpecial \<Rightarrow> NoModel ''infinity or NaN'')"
| "to_float _ = Exc TypeError"

fun to_int :: "val \<Rightarrow> int pure" where
  "to_int (VBool b) = Val (if b then 1 else 0)"
| "to_int (VInt i) = Val i"
| "to_int (VFloat r) = Val (truncate r)"
| "to_int (VStr x) = (case py_int x of Some i \<Rightarrow> Val i | None \<Rightarrow> Exc ValueError)"
| "to_int _ = Exc TypeError"

text \<open>\<^verbatim>\<open>list(range(a, b, c))\<close> for a step that is not zero.\<close>

function py_range :: "int \<Rightarrow> int \<Rightarrow> int \<Rightarrow> int list" where
  "py_range a b c =
     (if (0 < c \<and> a < b) \<or> (c < 0 \<and> b < a) then a # py_range (a + c) b c else [])"
  by pat_completeness auto
termination
  by (relation "measure (\<lambda>(a, b, c). nat (if 0 < c then b - a else a - b))") auto

fun join_space :: "string list \<Rightarrow> string" where
  "join_space [] = []"
| "join_space [x] = x"
| "join_space (x # y # ys) = x @ '' '' @ join_space (y # ys)"

fun strs_of :: "val list \<Rightarrow> string list pure" where
  "strs_of [] = Val []"
| "strs_of (v # vs) =
     (case py_str v of
        Val x \<Rightarrow> map_pure (\<lambda>xs. x # xs) (strs_of vs)
      | Exc e \<Rightarrow> Exc e
      | NoModel m \<Rightarrow> NoModel m)"

text \<open>The loop of a procedure call that binds the parameters: a missing argument is
  \<open>None\<close>.\<close>

fun bind_params :: "scope list \<Rightarrow> nat \<Rightarrow> string list \<Rightarrow> val list \<Rightarrow> scope list" where
  "bind_params scs fs [] args = scs"
| "bind_params scs fs (a # as) [] = bind_params (scope_set scs fs a VNone True) fs as []"
| "bind_params scs fs (a # as) (v # vs) = bind_params (scope_set scs fs a v True) fs as vs"

text \<open>
  \<^verbatim>\<open>call_function\<close>. The built-ins that are modelled follow the source branch by branch;
  the others (\<^verbatim>\<open>input\<close>, the mathematical functions other than the conversions,
  \<^verbatim>\<open>random\<close>, \<^verbatim>\<open>join\<close>, \<^verbatim>\<open>split\<close>, the file functions, \<^verbatim>\<open>sleep\<close> and the JSON
  functions) stop the model. The branch of a user-defined procedure is the last but one, as
  in the source: a name of a built-in never reaches it.
\<close>

definition call_function :: "interp \<Rightarrow> string \<Rightarrow> string \<Rightarrow> nat option \<Rightarrow> string option \<Rightarrow> state \<Rightarrow> val result" where
  "call_function R name args_str lnum file s0 =
     bind (if args_str \<noteq> [] then parse_args R args_str lnum file s0 else Ok [] s0) (\<lambda>args s.
       if name = ''print'' then
         bind (lift (strs_of args) s) (\<lambda>xs s1.
           Ok VNone (s1\<lparr>output' := output' s1 @ [join_space xs]\<rparr>))
       else if name = ''input'' then Stuck (Unmodelled name)
       else if name = ''len'' then
         (if args = [] then error (Msg ''len requires one argument'') lnum file None s
          else case hd args of
                 VStr x \<Rightarrow> Ok (VInt (int (length x))) s
               | VList a \<Rightarrow> (case deref s a of
                               Some (OList xs) \<Rightarrow> Ok (VInt (int (length xs))) s
                             | _ \<Rightarrow> Stuck (Unmodelled ''dangling reference''))
               | VDict a \<Rightarrow> (case deref s a of
                               Some (ODict kvs) \<Rightarrow> Ok (VInt (int (length kvs))) s
                             | _ \<Rightarrow> Stuck (Unmodelled ''dangling reference''))
               | _ \<Rightarrow> error (Msg ''Value has no length'') lnum file None s)
       else if name = ''type'' then
         (if args = [] then error (Msg ''type requires one argument'') lnum file None s
          else Ok (VStr (type_name (hd args))) s)
       else if name = ''str'' then
         (if args = [] then error (Msg ''str requires one argument'') lnum file None s
          else bind (lift (py_str (hd args)) s) (\<lambda>x s1. Ok (VStr x) s1))
       else if name = ''int'' then
         (if args = [] then error (Msg ''int requires one argument'') lnum file None s
          else case to_float (hd args) of
                 Val r \<Rightarrow> Ok (VInt (truncate r)) s
               | Exc e \<Rightarrow> error (Msg ''Cannot convert to integer'') lnum file None s
               | NoModel m \<Rightarrow> error (Msg ''Cannot convert to integer'') lnum file None s)
       else if name = ''float'' then
         (if args = [] then error (Msg ''float requires one argument'') lnum file None s
          else case to_float (hd args) of
                 Val r \<Rightarrow> Ok (VFloat r) s
               | Exc e \<Rightarrow> error (Msg ''Cannot convert to float'') lnum file None s
               | NoModel m \<Rightarrow> Stuck (Unmodelled m))
       else if name \<in> {''sqrt'', ''pow'', ''abs'', ''round'', ''floor'', ''ceil'', ''max'', ''min'',
                         ''sum'', ''random''} then Stuck (Unmodelled name)
       else if name = ''range'' then
         (if length args = 1 then
            bind (lift (to_int (args ! 0)) s) (\<lambda>b s1.
              case alloc (OList (map VInt (py_range 0 b 1))) s1 of (r, s2) \<Rightarrow> Ok (VList r) s2)
          else if length args = 2 then
            bind (lift (to_int (args ! 0)) s) (\<lambda>a s1.
              bind (lift (to_int (args ! 1)) s1) (\<lambda>b s2.
                case alloc (OList (map VInt (py_range a b 1))) s2 of (r, s3) \<Rightarrow> Ok (VList r) s3))
          else if length args = 3 then
            bind (lift (to_int (args ! 0)) s) (\<lambda>a s1.
              bind (lift (to_int (args ! 1)) s1) (\<lambda>b s2.
                bind (lift (to_int (args ! 2)) s2) (\<lambda>c s3.
                  if c = 0 then Raise (Py ValueError) s3
                  else case alloc (OList (map VInt (py_range a b c))) s3 of
                         (r, s4) \<Rightarrow> Ok (VList r) s4)))
          else error (Msg ''range requires 1-3 arguments'') lnum file None s)
       else if name = ''push'' then
         (if length args \<noteq> 2 then error (Msg ''push requires (array, value)'') lnum file None s
          else case args ! 0 of
                 VList a \<Rightarrow> (case deref s a of
                               Some (OList xs) \<Rightarrow> Ok VNone (store a (OList (xs @ [args ! 1])) s)
                             | _ \<Rightarrow> Stuck (Unmodelled ''dangling reference''))
               | _ \<Rightarrow> error (Msg ''First argument must be an array'') lnum file None s)
       else if name = ''pop'' then
         (case args of
            VList a # rest \<Rightarrow>
              (case deref s a of
                 Some (OList xs) \<Rightarrow>
                   (if xs = [] then error (Msg ''Array is empty'') lnum file None s
                    else Ok (last xs) (store a (OList (butlast xs)) s))
               | _ \<Rightarrow> Stuck (Unmodelled ''dangling reference''))
          | _ \<Rightarrow> error (Msg ''pop requires an array'') lnum file None s)
       else if name = ''keys'' then
         (if args = [] then error (Msg ''keys requires one argument'') lnum file None s
          else case hd args of
                 VDict a \<Rightarrow> (case deref s a of
                               Some (ODict kvs) \<Rightarrow>
                                 (case alloc (OList (map fst kvs)) s of (r, s1) \<Rightarrow> Ok (VList r) s1)
                             | _ \<Rightarrow> Stuck (Unmodelled ''dangling reference''))
               | _ \<Rightarrow> error (Msg ''keys requires an object'') lnum file None s)
       else if name = ''values'' then
         (if args = [] then error (Msg ''values requires one argument'') lnum file None s
          else case hd args of
                 VDict a \<Rightarrow> (case deref s a of
                               Some (ODict kvs) \<Rightarrow>
                                 (case alloc (OList (map snd kvs)) s of (r, s1) \<Rightarrow> Ok (VList r) s1)
                             | _ \<Rightarrow> Stuck (Unmodelled ''dangling reference''))
               | _ \<Rightarrow> error (Msg ''values requires an object'') lnum file None s)
       else if name \<in> {''join'', ''split'', ''readFile'', ''writeFile'', ''fileExists'',
                         ''deleteFile'', ''sleep'', ''json'', ''parseJson''} then
         Stuck (Unmodelled name)
       else if name = ''html'' then
         (if args = [] then error (Msg ''html requires content'') lnum file None s
          else Ok (hd args) s)
       else if name = ''import'' then
         (if args = [] then error (Msg ''import requires a filename'') lnum file None s
          else import_module R (hd args) lnum file s)
       else if name = ''export'' then
         (if length args < 2 then error (Msg ''export requires (name, value)'') lnum file None s
          else case file of
                 Some f \<Rightarrow>
                   (if f \<noteq> [] then
                      (case modules s f of
                         Some a \<Rightarrow> bind (setitem (VDict a) (args ! 0) (args ! 1) s) (\<lambda>u s1. Ok VNone s1)
                       | None \<Rightarrow> Ok VNone s)
                    else Ok VNone s)
               | None \<Rightarrow> Ok VNone s)
       else
         (case functions' s name of
            Some (func_body, func_args, def_scope) \<Rightarrow>
              (let s1 = s\<lparr>call_stack := call_stack s @ [(name, args)]\<rparr>
               in if MAX_RECURSION_DEPTH < length (call_stack s1) then
                    error (Msg (''Recursion depth exceeded ('' @ str_of_int (int MAX_RECURSION_DEPTH) @ '')''))
                      lnum file None s1
                  else
                    finally' (\<lambda>t. t\<lparr>call_stack := butlast (call_stack t)\<rparr>)
                      (case new_scope (Some def_scope) (''func:'' @ name) s1 of
                         (func_scope, s2) \<Rightarrow>
                           (let s3 = s2\<lparr>scopes := bind_params (scopes s2) func_scope func_args args\<rparr>;
                                old_scope = current_scope s3
                            in finally' (\<lambda>t. t\<lparr>current_scope := old_scope\<rparr>)
                                 (rec_run R func_body file (s3\<lparr>current_scope := func_scope\<rparr>)))))
          | None \<Rightarrow>
              error (Msg (''Function '' @ [CHR 0x27] @ name @ [CHR 0x27] @ '' not defined''))
                lnum file None s))"

text \<open>The loop of a property access \<^verbatim>\<open>a.b.c\<close> over the parts after the first.\<close>

fun access_path :: "val \<Rightarrow> string list \<Rightarrow> nat option \<Rightarrow> string option \<Rightarrow> string \<Rightarrow> state \<Rightarrow> val result" where
  "access_path ob [] lnum file expr s = Ok ob s"
| "access_path ob (part # parts) lnum file expr s =
     (case ob of
        VDict a \<Rightarrow>
          (case deref s a of
             Some (ODict kvs) \<Rightarrow>
               (case dict_get kvs (VStr part) of
                  None \<Rightarrow> error (Msg (''Key '' @ [CHR 0x27] @ part @ [CHR 0x27] @ '' not found''))
                            lnum file (Some expr) s
                | Some v \<Rightarrow> access_path v parts lnum file expr s)
           | _ \<Rightarrow> Stuck (Unmodelled ''dangling reference''))
      | _ \<Rightarrow> error (Msg (''Cannot access '' @ [CHR 0x27] @ part @ [CHR 0x27] @ '' in '' @ type_name ob))
               lnum file (Some expr) s)"

text \<open>The loop of a dict literal over its pairs.\<close>

fun eval_pairs :: "interp \<Rightarrow> nat \<Rightarrow> string list \<Rightarrow> nat option \<Rightarrow> string option \<Rightarrow> state \<Rightarrow> unit result" where
  "eval_pairs R a [] lnum file s = Ok () s"
| "eval_pairs R a (pair # pairs) lnum file s =
     (if CHR '':'' \<notin> set pair then eval_pairs R a pairs lnum file s
      else case split1 CHR '':'' pair of
             (kp, vp) \<Rightarrow>
               bind (rec_evaluate R (strip kp) lnum file s) (\<lambda>k s1.
                 bind (rec_evaluate R (strip vp) lnum file s1) (\<lambda>v s2.
                   bind (setitem (VDict a) k v s2) (\<lambda>u s3.
                     eval_pairs R a pairs lnum file s3))))"

definition var_not_defined :: "string \<Rightarrow> message" where
  "var_not_defined vn = Msg (''Variable '' @ [CHR 0x27] @ vn @ [CHR 0x27] @ '' not defined'')"

text \<open>\<^verbatim>\<open>eval_base\<close>.\<close>

definition eval_base :: "interp \<Rightarrow> string \<Rightarrow> nat option \<Rightarrow> string option \<Rightarrow> state \<Rightarrow> val result" where
  "eval_base R expr0 lnum file s =
     (let expr = strip expr0 in
      if expr = [] then Ok VNone s
      else if expr \<in> {''True'', ''true''} then Ok (VBool True) s
      else if expr \<in> {''False'', ''false''} then Ok (VBool False) s
      else if expr \<in> {''null'', ''None''} then Ok VNone s
      else if (startswith expr [CHR 0x22] \<and> endswith expr [CHR 0x22]) \<or>
              (startswith expr [CHR 0x27] \<and> endswith expr [CHR 0x27]) then
        Ok (VStr (parse_string (inner expr))) s
      else if startswith expr ''['' \<and> endswith expr '']'' then
        (case alloc (OList []) s of
           (a, s1) \<Rightarrow>
             (if strip (inner expr) = [] then Ok (VList a) s1
              else bind (eval_each R (split_items (strip (inner expr))) lnum file s1) (\<lambda>items s2.
                     Ok (VList a) (store a (OList items) s2))))
      else if startswith expr ''{'' \<and> endswith expr ''}'' then
        (case alloc (ODict []) s of
           (a, s1) \<Rightarrow>
             (if strip (inner expr) = [] then Ok (VDict a) s1
              else bind (eval_pairs R a (split_items (strip (inner expr))) lnum file s1) (\<lambda>u s2.
                     Ok (VDict a) s2)))
      else
        (let pp = (case find_char CHR ''('' expr of Some k \<Rightarrow> k | None \<Rightarrow> 0);
             fn = strip (take pp expr);
             args_str = strip (slice expr (pp + 1) (length expr - 1))
         in
         if CHR ''('' \<in> set expr \<and> endswith expr '')'' \<and> fn \<noteq> [] \<and>
            (fn \<in> set get_builtin_functions \<or> functions' s fn \<noteq> None \<or> isidentifier fn) then
           call_function R fn args_str lnum file s
         else if CHR ''['' \<in> set expr \<and> CHR '']'' \<in> set expr then
           (let bp = (case find_char CHR ''['' expr of Some k \<Rightarrow> k | None \<Rightarrow> 0);
                vn = strip (take bp expr);
                idx_expr = slice expr (bp + 1)
                             (case rfind_char CHR '']'' expr of Some k \<Rightarrow> k | None \<Rightarrow> 0)
            in case scope_get (scopes s) (current_scope s) vn of
                 Val var \<Rightarrow>
                   (case rec_evaluate R idx_expr lnum file s of
                      Ok idx s1 \<Rightarrow>
                        (case getitem var idx s1 of
                           Raise (Py KeyError) s2 \<Rightarrow> error (var_not_defined vn) lnum file (Some expr) s2
                         | Raise (Py IndexError) s2 \<Rightarrow>
                             bind (lift (py_str idx) s2) (\<lambda>t s3.
                               error (Msg (''Invalid index: '' @ t)) lnum file (Some expr) s3)
                         | r \<Rightarrow> r)
                    | Raise (Py KeyError) s1 \<Rightarrow> error (var_not_defined vn) lnum file (Some expr) s1
                    | r \<Rightarrow> r)
               | _ \<Rightarrow> error (var_not_defined vn) lnum file (Some expr) s)
         else if CHR ''.'' \<in> set expr \<and> \<not> is_number expr then
           (let parts = split_char CHR ''.'' expr
            in case scope_get (scopes s) (current_scope s) (hd parts) of
                 Val ob \<Rightarrow> access_path ob (tl parts) lnum file expr s
               | _ \<Rightarrow> error (var_not_defined (hd parts)) lnum file (Some expr) s)
         else if scope_exists (scopes s) (current_scope s) expr then
           lift (scope_get (scopes s) (current_scope s) expr) s
         else
           (case (if CHR ''.'' \<in> set expr
                  then (case py_float expr of
                          FVal r \<Rightarrow> Val (Some (VFloat r))
                        | FInvalid \<Rightarrow> Val None
                        | FSpecial \<Rightarrow> NoModel ''infinity or NaN'')
                  else Val (map_option VInt (py_int expr))) of
              Val (Some v) \<Rightarrow> Ok v s
            | Val None \<Rightarrow> error (Msg (''Invalid expression: '' @ expr)) lnum file (Some expr) s
            | Exc e \<Rightarrow> error (Msg (''Invalid expression: '' @ expr)) lnum file (Some expr) s
            | NoModel m \<Rightarrow> Stuck (Unmodelled m))))"

text \<open>The loops of \<^verbatim>\<open>eval_arith\<close>: \<^verbatim>\<open>any\<close> and \<^verbatim>\<open>all\<close> over a generator that evaluates
  the parts one by one and stops at the first part that decides the result; the loop of
  \<^verbatim>\<open>+\<close> and \<^verbatim>\<open>-\<close>; the loop of \<^verbatim>\<open>*\<close>, \<^verbatim>\<open>/\<close> and \<^verbatim>\<open>%\<close>; and the loop of \<^verbatim>\<open>^\<close>, which
  runs over the parts from the last to the first.\<close>

fun eval_any :: "interp \<Rightarrow> string list \<Rightarrow> nat option \<Rightarrow> string option \<Rightarrow> state \<Rightarrow> val result" where
  "eval_any R [] lnum file s = Ok (VBool False) s"
| "eval_any R (p # ps) lnum file s =
     bind (rec_eval_arith R p lnum file s) (\<lambda>v s1.
       if truthy s1 v then Ok (VBool True) s1 else eval_any R ps lnum file s1)"

fun eval_all :: "interp \<Rightarrow> string list \<Rightarrow> nat option \<Rightarrow> string option \<Rightarrow> state \<Rightarrow> val result" where
  "eval_all R [] lnum file s = Ok (VBool True) s"
| "eval_all R (p # ps) lnum file s =
     bind (rec_eval_arith R p lnum file s) (\<lambda>v s1.
       if \<not> truthy s1 v then Ok (VBool False) s1 else eval_all R ps lnum file s1)"

fun eval_addsub ::
  "interp \<Rightarrow> string \<Rightarrow> val \<Rightarrow> string list \<Rightarrow> nat option \<Rightarrow> string option \<Rightarrow> state \<Rightarrow> val result" where
  "eval_addsub R op result [] lnum file s = Ok result s"
| "eval_addsub R op result (p # ps) lnum file s =
     bind (rec_eval_arith R p lnum file s) (\<lambda>v s1.
       bind (if op = ''+'' then py_add result v s1 else py_sub result v s1) (\<lambda>result' s2.
         eval_addsub R op result' ps lnum file s2))"

fun eval_muldiv ::
  "interp \<Rightarrow> string \<Rightarrow> string \<Rightarrow> val \<Rightarrow> string list \<Rightarrow> nat option \<Rightarrow> string option \<Rightarrow> state
   \<Rightarrow> val result" where
  "eval_muldiv R op expr result [] lnum file s = Ok result s"
| "eval_muldiv R op expr result (p # ps) lnum file s =
     bind (rec_eval_arith R p lnum file s) (\<lambda>v s1.
       bind (if op = ''*'' then py_imul result v s1
             else if op = ''/'' then
               (if py_eq v (VInt 0) = Val True
                then error (Msg ''Division by zero'') lnum file (Some expr) s1
                else py_truediv result v s1)
             else py_mod result v s1) (\<lambda>result' s2.
         eval_muldiv R op expr result' ps lnum file s2))"

fun eval_pow :: "interp \<Rightarrow> val \<Rightarrow> string list \<Rightarrow> nat option \<Rightarrow> string option \<Rightarrow> state \<Rightarrow> val result" where
  "eval_pow R result [] lnum file s = Ok result s"
| "eval_pow R result (p # ps) lnum file s =
     bind (rec_eval_arith R p lnum file s) (\<lambda>v s1.
       bind (py_pow v result s1) (\<lambda>result' s2. eval_pow R result' ps lnum file s2))"

text \<open>\<^verbatim>\<open>eval_arith\<close>.\<close>

definition eval_arith :: "interp \<Rightarrow> string \<Rightarrow> nat option \<Rightarrow> string option \<Rightarrow> state \<Rightarrow> val result" where
  "eval_arith R expr0 lnum file s =
     (let expr = strip_parens (strip expr0) in
      case first_split (\<lambda>n. 1 < n) expr ['' or '', '' || ''] of
        Some (sep, parts) \<Rightarrow> eval_any R parts lnum file s
      | None \<Rightarrow>
     (case first_split (\<lambda>n. 1 < n) expr ['' and '', '' && ''] of
        Some (sep, parts) \<Rightarrow> eval_all R parts lnum file s
      | None \<Rightarrow>
     (if startswith expr ''not '' \<or> startswith expr ''!'' then
        (let rest = (if startswith expr ''not '' then drop 4 expr else drop 1 expr)
         in bind (rec_eval_arith R (strip rest) lnum file s) (\<lambda>v s1.
              Ok (VBool (\<not> truthy s1 v)) s1))
      else
     (case first_split (\<lambda>n. n = 2) expr [''=='', ''!='', ''>='', ''<='', ''>'', ''<''] of
        Some (op, parts) \<Rightarrow>
          bind (rec_eval_arith R (parts ! 0) lnum file s) (\<lambda>left s1.
            bind (rec_eval_arith R (parts ! 1) lnum file s1) (\<lambda>right s2.
              lift (compare op left right) s2))
      | None \<Rightarrow>
     (case first_split (\<lambda>n. 1 < n) expr [''+'', ''-''] of
        Some (op, parts) \<Rightarrow>
          bind (rec_eval_arith R (hd parts) lnum file s) (\<lambda>result s1.
            eval_addsub R op result (tl parts) lnum file s1)
      | None \<Rightarrow>
     (case first_split (\<lambda>n. 1 < n) expr [''*'', ''/'', ''%''] of
        Some (op, parts) \<Rightarrow>
          bind (rec_eval_arith R (hd parts) lnum file s) (\<lambda>result s1.
            eval_muldiv R op expr result (tl parts) lnum file s1)
      | None \<Rightarrow>
     (if CHR ''^'' \<in> set expr \<and> 1 < length (split_by_op expr ''^'') then
        bind (rec_eval_arith R (last (split_by_op expr ''^'')) lnum file s) (\<lambda>result s1.
          eval_pow R result (tl (rev (split_by_op expr ''^''))) lnum file s1)
      else eval_base R expr lnum file s)))))))"

text \<open>\<^verbatim>\<open>evaluate\<close>: the text after the first \<^verbatim>\<open>#\<close> is dropped, and a host exception
  that comes out of \<^verbatim>\<open>eval_arith\<close> is turned into an \<^verbatim>\<open>ExoError\<close> with the line and
  the expression.\<close>

definition evaluate :: "interp \<Rightarrow> string \<Rightarrow> nat option \<Rightarrow> string option \<Rightarrow> state \<Rightarrow> val result" where
  "evaluate R expr0 lnum file s =
     (if expr0 = [] \<or> startswith (strip expr0) ''#'' then Ok VNone s
      else let expr = strip (takeWhile (\<lambda>c. c \<noteq> CHR ''#'') expr0) in
        if expr = [] then Ok VNone s
        else case eval_arith R expr lnum file s of
               Raise (Py x) s1 \<Rightarrow> error (Evaluation_error x) lnum file (Some expr) s1
             | r \<Rightarrow> r)"

subsection \<open>The statement runner\<close>

text \<open>
  The block scans of \<^verbatim>\<open>run\<close>. All of them walk the lines after a block opener, keep a
  depth and stop at the line that closes the block (or at the end of the code); they return
  the lines passed, the body, and the model also returns their number. \<open>collect_block\<close> is
  the scan of \<^verbatim>\<open>route\<close>, \<^verbatim>\<open>func\<close>, \<^verbatim>\<open>while\<close>, \<^verbatim>\<open>for\<close> and of an \<^verbatim>\<open>else\<close> branch;
  \<open>collect_if\<close> is the scan of an \<^verbatim>\<open>if\<close> or \<^verbatim>\<open>else if\<close> branch, which also stops at
  \<^verbatim>\<open>else\<close> and \<^verbatim>\<open>else if\<close> of its own depth.
\<close>

definition opens_block :: "string \<Rightarrow> bool" where
  "opens_block cur =
     (startswith cur ''route '' \<or> startswith cur ''func '' \<or> startswith cur ''function '' \<or>
      startswith cur ''if '' \<or> startswith cur ''while '' \<or> startswith cur ''for '')"

fun collect_block :: "int \<Rightarrow> string list \<Rightarrow> string list \<times> nat" where
  "collect_block depth [] = ([], 0)"
| "collect_block depth (l # ls) =
     (let cur = strip l in
      if opens_block cur then
        (case collect_block (depth + 1) ls of (body, n) \<Rightarrow> (l # body, Suc n))
      else if cur = ''end'' then
        (if depth - 1 = 0 then ([], 0)
         else case collect_block (depth - 1) ls of (body, n) \<Rightarrow> (l # body, Suc n))
      else (case collect_block depth ls of (body, n) \<Rightarrow> (l # body, Suc n)))"

fun collect_if :: "int \<Rightarrow> string list \<Rightarrow> string list \<times> nat" where
  "collect_if depth [] = ([], 0)"
| "collect_if depth (l # ls) =
     (let cur = strip l in
      if opens_block cur then
        (case collect_if (depth + 1) ls of (body, n) \<Rightarrow> (l # body, Suc n))
      else if cur = ''end'' \<or> cur = ''else'' \<or> startswith cur ''else if '' then
        (if depth = 1 then ([], 0)
         else case collect_if (if cur = ''end'' then depth - 1 else depth) ls of
                (body, n) \<Rightarrow> (l # body, Suc n))
      else (case collect_if depth ls of (body, n) \<Rightarrow> (l # body, Suc n)))"

text \<open>What a statement does to the loop of \<^verbatim>\<open>run\<close>: it makes \<^verbatim>\<open>run\<close> return a value,
  or it leaves the index \<open>i\<close> advanced by a number of lines (0 for a statement of one line),
  after which the loop goes on with \<^verbatim>\<open>i += 1\<close>.\<close>

datatype flow = Return val | Next nat

text \<open>
  The \<^verbatim>\<open>while True\<close> loop of an \<^verbatim>\<open>if\<close> statement. \<open>i\<close> is the index of the line
  \<open>line\<close> that holds the condition; the result \<open>Next j\<close> of this function is the index at
  which the loop leaves \<open>i\<close>. The condition is evaluated with the line number of the line
  that ends the branch. When an \<^verbatim>\<open>else\<close> is met after a branch has run, the loop is left
  with \<open>i\<close> on the \<^verbatim>\<open>else\<close> line.
\<close>

definition branch_body :: "string list \<Rightarrow> nat \<Rightarrow> string list" where
  "branch_body code i = fst (collect_if 1 (drop (Suc i) code))"

definition branch_end :: "string list \<Rightarrow> nat \<Rightarrow> nat" where
  "branch_end code i = Suc i + snd (collect_if 1 (drop (Suc i) code))"

definition block_body :: "string list \<Rightarrow> nat \<Rightarrow> string list" where
  "block_body code i = fst (collect_block 1 (drop (Suc i) code))"

definition block_end :: "string list \<Rightarrow> nat \<Rightarrow> nat" where
  "block_end code i = Suc i + snd (collect_block 1 (drop (Suc i) code))"

function if_chain ::
  "interp \<Rightarrow> string list \<Rightarrow> string option \<Rightarrow> string \<Rightarrow> nat \<Rightarrow> bool \<Rightarrow> nat \<Rightarrow> state
   \<Rightarrow> flow result" where
  "if_chain R code file line prefix_len executed i s =
     bind (if \<not> executed then
             bind (evaluate R (strip (drop prefix_len line)) (Some (Suc (branch_end code i))) file s)
               (\<lambda>c s1.
                  if truthy s1 c then
                    bind (rec_run R (branch_body code i) file s1) (\<lambda>r s2. Ok (True, r) s2)
                  else Ok (False, VNone) s1)
           else Ok (True, VNone) s)
       (\<lambda>er s1.
          if snd er \<noteq> VNone then Ok (Return (snd er)) s1
          else if length code \<le> branch_end code i then Ok (Next (branch_end code i)) s1
          else if strip (code ! branch_end code i) = ''end'' then Ok (Next (branch_end code i)) s1
          else if startswith (strip (code ! branch_end code i)) ''else if '' then
            if_chain R code file (strip (code ! branch_end code i)) 8 (fst er) (branch_end code i) s1
          else if strip (code ! branch_end code i) = ''else'' then
            (if \<not> fst er then
               bind (rec_run R (block_body code (branch_end code i)) file s1)
                 (\<lambda>r s2.
                    if r \<noteq> VNone then Ok (Return r) s2
                    else Ok (Next (block_end code (branch_end code i))) s2)
             else Ok (Next (branch_end code i)) s1)
          else if_chain R code file line prefix_len (fst er) (branch_end code i) s1)"
  by pat_completeness auto
termination
  by (relation "measure (\<lambda>(R, code, file, line, prefix_len, executed, i, s). length code - i)")
     (auto simp: branch_end_def)

text \<open>The \<^verbatim>\<open>while\<close> loop of \<^verbatim>\<open>run\<close>, from the test of the condition on. \<open>None\<close>: the
  loop has ended and \<^verbatim>\<open>run\<close> goes on; \<open>Some v\<close>: \<^verbatim>\<open>run\<close> returns \<open>v\<close>.\<close>

definition while_loop ::
  "interp \<Rightarrow> string \<Rightarrow> nat option \<Rightarrow> string option \<Rightarrow> string list \<Rightarrow> state \<Rightarrow> val option result" where
  "while_loop R cond lnum file body s =
     bind (evaluate R cond lnum file s) (\<lambda>c s1.
       if truthy s1 c then
         bind (rec_run R body file s1) (\<lambda>r s2.
           if r = VStr ''break'' then Ok None s2
           else if r = VStr ''continue'' then rec_while R cond lnum file body s2
           else if r \<noteq> VNone then Ok (Some r) s2
           else rec_while R cond lnum file body s2)
       else Ok None s1)"

text \<open>
  The \<^verbatim>\<open>for item in iterable\<close> loop of \<^verbatim>\<open>run\<close>, from the step that asks the iterator
  for item number \<open>k\<close>. The iterator of a list reads the list object as it is at that
  moment; the iterator of a dict raises when the dict has no longer the size \<open>n0\<close> it had
  when the loop began (the language can add keys to a dict but not remove them).
\<close>

definition next_item :: "state \<Rightarrow> val \<Rightarrow> nat \<Rightarrow> nat \<Rightarrow> val option pure" where
  "next_item s iterable k n0 =
     (case iterable of
        VList a \<Rightarrow>
          (case deref s a of
             Some (OList xs) \<Rightarrow> Val (if k < length xs then Some (xs ! k) else None)
           | _ \<Rightarrow> NoModel ''dangling reference'')
      | VDict a \<Rightarrow>
          (case deref s a of
             Some (ODict kvs) \<Rightarrow>
               (if length kvs \<noteq> n0 then Exc RuntimeError
                else Val (if k < length kvs then Some (fst (kvs ! k)) else None))
           | _ \<Rightarrow> NoModel ''dangling reference'')
      | VStr x \<Rightarrow> Val (if k < length x then Some (VStr [x ! k]) else None)
      | _ \<Rightarrow> Exc TypeError)"

definition for_loop ::
  "interp \<Rightarrow> string \<Rightarrow> val \<Rightarrow> nat \<Rightarrow> nat \<Rightarrow> string list \<Rightarrow> string option \<Rightarrow> state
   \<Rightarrow> val option result" where
  "for_loop R vn iterable k n0 body file s =
     bind (lift (next_item s iterable k n0) s) (\<lambda>item s0.
       case item of
         None \<Rightarrow> Ok None s0
       | Some v \<Rightarrow>
           bind (rec_run R body file
                   (s0\<lparr>scopes := scope_set (scopes s0) (current_scope s0) vn v True\<rparr>)) (\<lambda>r s2.
             if r = VStr ''break'' then Ok None s2
             else if r = VStr ''continue'' then rec_for R vn iterable (Suc k) n0 body file s2
             else if r \<noteq> VNone then Ok (Some r) s2
             else rec_for R vn iterable (Suc k) n0 body file s2))"

text \<open>The element assignment \<^verbatim>\<open>name[idx] = expr\<close>, which the source has twice: after a
  declaration keyword and as a plain assignment.\<close>

definition assign_element ::
  "interp \<Rightarrow> string \<Rightarrow> string \<Rightarrow> string \<Rightarrow> nat \<Rightarrow> string option \<Rightarrow> string \<Rightarrow> state \<Rightarrow> flow result" where
  "assign_element R vn idx_expr val_expr i file line s =
     (case scope_get (scopes s) (current_scope s) vn of
        Val var \<Rightarrow>
          (case bind (evaluate R idx_expr (Some (Suc i)) file s) (\<lambda>idx s1.
                  bind (evaluate R val_expr (Some (Suc i)) file s1) (\<lambda>v s2.
                    bind (setitem var idx v s2) (\<lambda>u s3. Ok (Next 0) s3))) of
             Raise (Py KeyError) s' \<Rightarrow> error (var_not_defined vn) (Some (Suc i)) file (Some line) s'
           | r \<Rightarrow> r)
      | _ \<Rightarrow> error (var_not_defined vn) (Some (Suc i)) file (Some line) s)"

text \<open>The loop \<^verbatim>\<open>for part in parts[1:-1]: obj = obj[part]\<close> of a property assignment.\<close>

fun walk_path :: "val \<Rightarrow> string list \<Rightarrow> state \<Rightarrow> val result" where
  "walk_path ob [] s = Ok ob s"
| "walk_path ob (part # parts) s =
     bind (getitem ob (VStr part) s) (\<lambda>ob' s1. walk_path ob' parts s1)"

definition is_iterable :: "val \<Rightarrow> bool" where
  "is_iterable v = (case v of VStr x \<Rightarrow> True | VList a \<Rightarrow> True | VDict a \<Rightarrow> True | _ \<Rightarrow> False)"

definition dict_size :: "state \<Rightarrow> val \<Rightarrow> nat" where
  "dict_size s v =
     (case v of
        VDict a \<Rightarrow> (case deref s a of Some (ODict kvs) \<Rightarrow> length kvs | _ \<Rightarrow> 0)
      | _ \<Rightarrow> 0)"

text \<open>
  One pass through the body of the main loop of \<^verbatim>\<open>run\<close>: the statement that starts at
  line \<open>i\<close>, whose stripped text \<open>line\<close> is not empty and not a comment. \<open>dispatch\<close> is the
  body of the \<^verbatim>\<open>try\<close>, with the branches of the source in its order; \<open>stmt\<close> puts the
  handler of the \<^verbatim>\<open>try\<close> around it: a host exception becomes an \<^verbatim>\<open>ExoError\<close>
  "Unexpected error" with the number \<open>i + 1\<close> for the value that \<open>i\<close> has when the
  exception is raised. One branch raises a host exception after it has moved \<open>i\<close>: the
  iterator of a \<^verbatim>\<open>for\<close> loop (\<^verbatim>\<open>RuntimeError\<close> for a dict that changed size), when the
  block scan has left \<open>i\<close> on the line that closes the loop; \<open>dispatch\<close> turns that
  exception into the error with that line on the spot. In all other branches a host
  exception arises with \<open>i\<close> on the line of the statement.
\<close>

definition dispatch :: "interp \<Rightarrow> string list \<Rightarrow> string option \<Rightarrow> nat \<Rightarrow> string \<Rightarrow> state \<Rightarrow> flow result" where
  "dispatch R code file i line s =
       (if startswith line ''let '' \<or> startswith line ''var '' \<or> startswith line ''const '' then
          (let rest = strip (drop (first_word_len line + 1) line) in
           if CHR ''['' \<in> set rest \<and> CHR ''='' \<in> set rest \<and>
              the (find_char CHR ''['' rest) < the (find_char CHR ''='' rest) then
             assign_element R (strip (take (the (find_char CHR ''['' rest)) rest))
               (slice_to_find rest (the (find_char CHR ''['' rest) + 1) CHR '']'')
               (strip (snd (split1 CHR ''='' rest))) i file line s
           else if CHR ''='' \<notin> set rest then
             error (Msg ''Invalid syntax: use = to assign value'') (Some (Suc i)) file (Some line) s
           else
             (let name = strip (fst (split1 CHR ''='' rest));
                  value = snd (split1 CHR ''='' rest)
              in if \<not> isidentifier name then
                   error (Msg (''Invalid variable name: '' @ name)) (Some (Suc i)) file (Some line) s
                 else
                   bind (evaluate R (strip value) (Some (Suc i)) file s) (\<lambda>v s1.
                     Ok (Next 0)
                       (s1\<lparr>scopes := scope_set (scopes s1) (current_scope s) name v True\<rparr>))))
        else if startswith line ''return '' then
          (if strip (drop 7 line) \<noteq> [] then
             bind (evaluate R (strip (drop 7 line)) (Some (Suc i)) file s) (\<lambda>v s1. Ok (Return v) s1)
           else Ok (Return VNone) s)
        else if line = ''break'' then Ok (Return (VStr ''break'')) s
        else if line = ''continue'' then Ok (Return (VStr ''continue'')) s
        else if startswith line ''route '' then
          (let route_path = strip (drop 6 line);
               route_path' = (if startswith route_path ''/'' then route_path else ''/'' @ route_path)
           in Ok (Next (block_end code i - i))
                (s\<lparr>web_routes := (web_routes s)(route_path' \<mapsto> block_body code i)\<rparr>))
        else if startswith line ''func '' \<or> startswith line ''function '' then
          (let rest = strip (drop (first_word_len line + 1) line) in
           if CHR ''('' \<notin> set rest \<or> CHR '')'' \<notin> set rest then
             error (Msg ''Invalid function syntax'') (Some (Suc i)) file (Some line) s
           else
             (let fn = strip (take (the (find_char CHR ''('' rest)) rest);
                  args_str = slice rest (the (find_char CHR ''('' rest) + 1)
                               (the (find_char CHR '')'' rest));
                  args_names = filter (\<lambda>a. a \<noteq> []) (map strip (split_char CHR '','' args_str))
              in Ok (Next (block_end code i - i))
                   (s\<lparr>functions' := (functions' s)
                        (fn \<mapsto> (block_body code i, args_names, current_scope s))\<rparr>)))
        else if startswith line ''if '' then
          bind (if_chain R code file line 3 False i s) (\<lambda>f s1.
            case f of Return v \<Rightarrow> Ok (Return v) s1 | Next j \<Rightarrow> Ok (Next (j - i)) s1)
        else if startswith line ''while '' then
          bind (rec_while R (strip (drop 6 line)) (Some (Suc (block_end code i))) file
                  (block_body code i) s) (\<lambda>r s1.
            case r of Some v \<Rightarrow> Ok (Return v) s1 | None \<Rightarrow> Ok (Next (block_end code i - i)) s1)
        else if startswith line ''for '' then
          (let rest = strip (drop 4 line) in
           if \<not> contains rest '' in '' then
             error (Msg ''Invalid for syntax'') (Some (Suc i)) file (Some line) s
           else
             bind (evaluate R (strip (snd (split1_str '' in '' rest))) (Some (Suc i)) file s)
               (\<lambda>iterable s1.
                  if \<not> is_iterable iterable then
                    error (Msg ''Value is not iterable'') (Some (Suc i)) file (Some line) s1
                  else
                    bind (case rec_for R (strip (fst (split1_str '' in '' rest))) iterable 0
                                 (dict_size s1 iterable) (block_body code i) file s1 of
                            Raise (Py x) s' \<Rightarrow>
                              error (Unexpected_error x) (Some (Suc (block_end code i))) file
                                (Some line) s'
                          | r \<Rightarrow> r) (\<lambda>r s2.
                      case r of Some v \<Rightarrow> Ok (Return v) s2
                      | None \<Rightarrow> Ok (Next (block_end code i - i)) s2)))
        else if CHR ''('' \<in> set line \<and> CHR '')'' \<in> set line then
          bind (evaluate R line (Some (Suc i)) file s) (\<lambda>v s1. Ok (Next 0) s1)
        else if CHR ''='' \<in> set line then
          (let name = strip (fst (split1 CHR ''='' line));
               value = snd (split1 CHR ''='' line)
           in if CHR ''['' \<in> set name then
                assign_element R (strip (take (the (find_char CHR ''['' name)) name))
                  (slice_to_find name (the (find_char CHR ''['' name) + 1) CHR '']'')
                  (strip value) i file line s
              else if CHR ''.'' \<in> set name then
                (let parts = split_char CHR ''.'' name
                 in case scope_get (scopes s) (current_scope s) (hd parts) of
                      Val ob0 \<Rightarrow>
                        (case bind (walk_path ob0 (butlast (tl parts)) s) (\<lambda>ob s1.
                                bind (evaluate R (strip value) (Some (Suc i)) file s1) (\<lambda>v s2.
                                  bind (setitem ob (VStr (last parts)) v s2) (\<lambda>u s3.
                                    Ok (Next 0) s3))) of
                           Raise (Py KeyError) s' \<Rightarrow>
                             error (var_not_defined (hd parts)) (Some (Suc i)) file (Some line) s'
                         | r \<Rightarrow> r)
                    | _ \<Rightarrow> error (var_not_defined (hd parts)) (Some (Suc i)) file (Some line) s)
              else if \<not> scope_exists (scopes s) (current_scope s) name then
                error (Msg (''Variable '' @ [CHR 0x27] @ name @ [CHR 0x27] @
                            '' not defined - use '' @ [CHR 0x27] @ ''let'' @ [CHR 0x27] @
                            '' to declare it first''))
                  (Some (Suc i)) file (Some line) s
              else
                bind (evaluate R (strip value) (Some (Suc i)) file s) (\<lambda>v s1.
                  Ok (Next 0)
                    (s1\<lparr>scopes := scope_set (scopes s1) (current_scope s) name v False\<rparr>)))
        else
          bind (evaluate R line (Some (Suc i)) file s) (\<lambda>v s1. Ok (Next 0) s1))"

definition stmt :: "interp \<Rightarrow> string list \<Rightarrow> string option \<Rightarrow> nat \<Rightarrow> string \<Rightarrow> state \<Rightarrow> flow result" where
  "stmt R code file i line s =
     (case dispatch R code file i line s of
        Raise (Py x) s' \<Rightarrow> error (Unexpected_error x) (Some (Suc i)) file (Some line) s'
      | r \<Rightarrow> r)"

text \<open>The main loop of \<^verbatim>\<open>run\<close> from index \<open>i\<close>, and \<^verbatim>\<open>run\<close> on a list of lines.\<close>

function run_from :: "interp \<Rightarrow> string list \<Rightarrow> string option \<Rightarrow> nat \<Rightarrow> state \<Rightarrow> val result" where
  "run_from R code file i s =
     (if i < length code then
        (if strip (code ! i) = [] \<or> startswith (strip (code ! i)) ''#'' then
           run_from R code file (Suc i) s
         else
           (case stmt R code file i (strip (code ! i)) s of
              Ok (Return v) s' \<Rightarrow> Ok v s'
            | Ok (Next k) s' \<Rightarrow> run_from R code file (Suc (i + k)) s'
            | Raise e s' \<Rightarrow> Raise e s'
            | Stuck k \<Rightarrow> Stuck k))
      else Ok VNone s)"
  by pat_completeness auto
termination
  by (relation "measure (\<lambda>(R, code, file, i, s). length code - i)") auto

definition run :: "interp \<Rightarrow> string list \<Rightarrow> string option \<Rightarrow> state \<Rightarrow> val result" where
  "run R code_lines file s = run_from R code_lines file 0 s"

text \<open>
  Closing the cycle: the interpreter with \<open>n\<close> levels of nested calls to spend;
  \<open>Stuck OutOfFuel\<close> says that a run used them up. On the host every such level is at
  least one frame of Python's stack (a call of \<^verbatim>\<open>run\<close>, \<^verbatim>\<open>evaluate\<close> or \<^verbatim>\<open>eval_arith\<close>),
  and the source never raises the host's recursion limit, 1000 frames by default. What the
  host does at that limit (it raises \<^verbatim>\<open>RecursionError\<close>) is not modelled: a result for
  \<open>exo n\<close> describes the program at the depths of nesting that the host allows.
\<close>

primrec exo :: "nat \<Rightarrow> interp" where
  "exo 0 =
     \<lparr>rec_eval_arith = (\<lambda>expr lnum file s. Stuck OutOfFuel),
      rec_evaluate = (\<lambda>expr lnum file s. Stuck OutOfFuel),
      rec_run = (\<lambda>code file s. Stuck OutOfFuel),
      rec_while = (\<lambda>cond lnum file body s. Stuck OutOfFuel),
      rec_for = (\<lambda>vn iterable k n0 body file s. Stuck OutOfFuel)\<rparr>"
| "exo (Suc n) =
     (let R = exo n
      in \<lparr>rec_eval_arith = eval_arith R,
          rec_evaluate = evaluate R,
          rec_run = run R,
          rec_while = while_loop R,
          rec_for = for_loop R\<rparr>)"

text \<open>\<^verbatim>\<open>run(code, file)\<close> on source text, as \<^verbatim>\<open>run_file\<close> and the REPL call it.\<close>

definition run_text :: "nat \<Rightarrow> string \<Rightarrow> string option \<Rightarrow> state \<Rightarrow> val result" where
  "run_text n code file s = run (exo n) (split_char CHR 0x0A code) file s"

text \<open>The state of a fresh interpreter: the global scope, empty tables, the files and
  working directory of the host.\<close>

definition init_state :: "(string \<rightharpoonup> string) \<Rightarrow> string \<Rightarrow> state" where
  "init_state fs wd =
     \<lparr>scopes = [\<lparr>scope_parent = None, scope_name = ''global'', scope_vars = []\<rparr>],
      current_scope = 0, functions' = Map.empty, modules = Map.empty, web_routes = Map.empty,
      output' = [], call_stack = [], heap = [], files = fs, cwd = wd\<rparr>"

subsection \<open>The HTTP adapter\<close>

text \<open>
  \<^verbatim>\<open>ExoWebHandler.do_GET\<close> for a path that is not \<^verbatim>\<open>/favicon.ico\<close>, as far as the
  interpreter is concerned: the status and the body of the response. The query object that
  the host parses from the URL is an argument. The default page of the source is a fixed
  HTML text; the model names it.
\<close>

datatype page = Default_page | Body string | Error_text exo_error | Routes_index

datatype response = Response nat page

definition do_GET :: "interp \<Rightarrow> string \<Rightarrow> val \<Rightarrow> state \<Rightarrow> response result" where
  "do_GET R path query s =
     (case web_routes s path of
        Some body \<Rightarrow>
          (let old_scope = current_scope s
           in case new_scope (Some 0) (''request:'' @ path) s of
                (request_scope, s1) \<Rightarrow>
                  (case alloc (ODict [(VStr ''path'', VStr path), (VStr ''query'', query),
                                      (VStr ''method'', VStr ''GET'')])
                          (s1\<lparr>current_scope := request_scope\<rparr>) of
                     (a, s2) \<Rightarrow>
                       (case finally' (\<lambda>t. t\<lparr>current_scope := old_scope\<rparr>)
                               (run R body (Some (''route:'' @ path))
                                  (s2\<lparr>scopes := scope_set (scopes s2) (current_scope s2)
                                                   ''request'' (VDict a) True\<rparr>)) of
                          Ok r s3 \<Rightarrow>
                            (if \<not> truthy s3 r then Ok (Response 200 Default_page) s3
                             else bind (lift (py_str r) s3) (\<lambda>x s4. Ok (Response 200 (Body x)) s4))
                        | Raise (Exo e) s3 \<Rightarrow> Ok (Response 500 (Error_text e)) s3
                        | Raise (Py x) s3 \<Rightarrow> Raise (Py x) s3
                        | Stuck k \<Rightarrow> Stuck k)))
      | None \<Rightarrow> Ok (Response 404 Routes_index) s)"

subsection \<open>Reading an outcome\<close>

fun value_of :: "'a result \<Rightarrow> 'a option" where
  "value_of (Ok v s) = Some v"
| "value_of _ = None"

fun raised :: "'a result \<Rightarrow> exn option" where
  "raised (Raise e s) = Some e"
| "raised _ = None"

fun state_of :: "'a result \<Rightarrow> state option" where
  "state_of (Ok v s) = Some s"
| "state_of (Raise e s) = Some s"
| "state_of (Stuck k) = None"

text \<open>The value of a global variable and the \<^verbatim>\<open>output\<close> log after a run.\<close>

definition global_var :: "'a result \<Rightarrow> string \<Rightarrow> val option" where
  "global_var r n =
     (case state_of r of
        Some s \<Rightarrow> (case scopes s of [] \<Rightarrow> None | g # rest \<Rightarrow> map_of (scope_vars g) n)
      | None \<Rightarrow> None)"

definition printed :: "'a result \<Rightarrow> string list" where
  "printed r = (case state_of r of Some s \<Rightarrow> output' s | None \<Rightarrow> [])"

subsection \<open>Notions used in the statements\<close>

text \<open>A state in which the names \<open>a\<close> and \<open>b\<close> resolve, from the current scope, to the
  integers \<open>x\<close> and \<open>y\<close>; and the state of a fresh interpreter with these two globals.\<close>

definition int_operands :: "state \<Rightarrow> int \<Rightarrow> int \<Rightarrow> bool" where
  "int_operands s x y =
     (scope_get (scopes s) (current_scope s) ''a'' = Val (VInt x) \<and>
      scope_get (scopes s) (current_scope s) ''b'' = Val (VInt y))"

definition globals_state :: "(string \<times> val) list \<Rightarrow> state" where
  "globals_state vars =
     (init_state Map.empty [])
       \<lparr>scopes := [\<lparr>scope_parent = None, scope_name = ''global'', scope_vars = vars\<rparr>]\<rparr>"

text \<open>The parts \<open>ps\<close> of an \<^verbatim>\<open>and\<close> or \<^verbatim>\<open>or\<close> chain are evaluated one after the other, from
  the state \<open>s\<close> on, and every one of them yields a value whose truth is \<open>d\<close>: the state
  in which the last of them leaves the interpreter.\<close>

fun passes ::
  "bool \<Rightarrow> interp \<Rightarrow> string list \<Rightarrow> nat option \<Rightarrow> string option \<Rightarrow> state \<Rightarrow> state option" where
  "passes d R [] lnum file s = Some s"
| "passes d R (p # ps) lnum file s =
     (case rec_eval_arith R p lnum file s of
        Ok v s1 \<Rightarrow> if truthy s1 v = d then passes d R ps lnum file s1 else None
      | _ \<Rightarrow> None)"

text \<open>The name and the parameter names that a \<^verbatim>\<open>func\<close> line declares, as the branch of
  \<^verbatim>\<open>run\<close> reads them from the text \<open>rest\<close> after the keyword.\<close>

definition def_name :: "string \<Rightarrow> string" where
  "def_name rest = strip (take (the (find_char CHR ''('' rest)) rest)"

definition def_params :: "string \<Rightarrow> string list" where
  "def_params rest =
     filter (\<lambda>a. a \<noteq> [])
       (map strip (split_char CHR '',''
          (slice rest (the (find_char CHR ''('' rest) + 1) (the (find_char CHR '')'' rest)))))"

text \<open>The state in which \<^verbatim>\<open>call_function\<close> runs the body of a user-defined procedure: the
  frame is on the call stack, a new scope whose parent is the scope of the definition is in
  the store with the parameters bound, and it is the current scope.\<close>

definition call_state :: "string \<Rightarrow> string list \<Rightarrow> nat \<Rightarrow> val list \<Rightarrow> state \<Rightarrow> state" where
  "call_state name params def_scope args s =
     s\<lparr>call_stack := call_stack s @ [(name, args)],
       scopes := bind_params
                   (scopes s @ [\<lparr>scope_parent = Some def_scope, scope_name = ''func:'' @ name,
                                 scope_vars = []\<rparr>])
                   (length (scopes s)) params args,
       current_scope := length (scopes s)\<rparr>"

text \<open>The entry of the table \<^verbatim>\<open>functions\<close> for a name after a run, if the run ends in a
  state.\<close>

definition installed :: "'a result \<Rightarrow> string \<Rightarrow> (string list \<times> string list \<times> nat) option" where
  "installed r n = (case state_of r of Some s \<Rightarrow> functions' s n | None \<Rightarrow> None)"

text \<open>The state in which \<^verbatim>\<open>import_module\<close> runs the body of a module that is not yet
  loaded: the empty \<^verbatim>\<open>exports\<close> dict is on the heap and registered in \<^verbatim>\<open>modules\<close>
  under the full path, and a new scope under the global scope is the current scope.\<close>

definition import_state :: "string \<Rightarrow> string \<Rightarrow> state \<Rightarrow> state" where
  "import_state module_path full s =
     s\<lparr>heap := heap s @ [ODict []],
       modules := (modules s)(full \<mapsto> length (heap s)),
       scopes := scopes s @ [\<lparr>scope_parent = Some 0, scope_name = ''module:'' @ module_path,
                              scope_vars = []\<rparr>],
       current_scope := length (scopes s)\<rparr>"

text \<open>What \<^verbatim>\<open>import_module\<close> makes of the outcome of the run of the body.\<close>

definition loaded ::
  "string \<Rightarrow> nat option \<Rightarrow> string option \<Rightarrow> val result \<Rightarrow> val result" where
  "loaded full lnum file r =
     (case r of
        Ok u s4 \<Rightarrow>
          (case modules s4 full of
             Some a' \<Rightarrow> Ok (VDict a') s4
           | None \<Rightarrow> error (Failed_to_load KeyError) lnum file None s4)
      | Raise (Exo e) s4 \<Rightarrow> Raise (Exo e) s4
      | Raise (Py x) s4 \<Rightarrow> error (Failed_to_load x) lnum file None s4
      | Stuck k \<Rightarrow> Stuck k)"

text \<open>The \<^verbatim>\<open>ExoError\<close> of the recursion limit, raised by a call made at line \<open>lnum\<close> of
  file \<open>file\<close>.\<close>

definition depth_error :: "nat option \<Rightarrow> string option \<Rightarrow> exn" where
  "depth_error lnum file =
     Exo \<lparr>err_msg = Msg ''Recursion depth exceeded (1000)'', err_line = lnum, err_file = file,
          err_context = None\<rparr>"

section \<open>Running the model\<close>

text \<open>
  The recursive equations of the loops are applied on demand, and the second argument of
  \<open>bind\<close> is only looked at once the first is an outcome: so a concrete run is computed by
  rewriting from the outside in, in the order of the run.
\<close>

declare exo.simps [simp del]
declare run_from.simps [simp del]
declare if_chain.simps [simp del]
declare strip_parens.simps [simp del]
declare scope_get.simps [simp del]
declare scope_exists.simps [simp del]
declare get_all_names.simps [simp del]
declare defining_scope.simps [simp del]
declare bitlen.simps [simp del]
declare digits_of.simps [simp del]
declare py_range.simps [simp del]

lemma bind_weak_cong: "r = r' \<Longrightarrow> bind r f = bind r' f"
  by simp

lemma finally_weak_cong: "r = r' \<Longrightarrow> finally' h r = finally' h r'"
  by simp

lemma exo_Suc:
  "rec_eval_arith (exo (Suc n)) = eval_arith (exo n)"
  "rec_evaluate (exo (Suc n)) = evaluate (exo n)"
  "rec_run (exo (Suc n)) = run (exo n)"
  "rec_while (exo (Suc n)) = while_loop (exo n)"
  "rec_for (exo (Suc n)) = for_loop (exo n)"
  by (simp_all add: exo.simps Let_def)

lemma exo_numeral:
  "rec_eval_arith (exo (numeral k)) = eval_arith (exo (pred_numeral k))"
  "rec_evaluate (exo (numeral k)) = evaluate (exo (pred_numeral k))"
  "rec_run (exo (numeral k)) = run (exo (pred_numeral k))"
  "rec_while (exo (numeral k)) = while_loop (exo (pred_numeral k))"
  "rec_for (exo (numeral k)) = for_loop (exo (pred_numeral k))"
  by (simp_all add: numeral_eq_Suc exo_Suc)

lemmas string_defs =
  strip_def lstrip_def rstrip_def is_space_def startswith_def endswith_def inner_def slice_def
  split1_def first_word_len_def isidentifier_def id_start_def id_continue_def
  slice_to_find_def rfind_char_def is_digit_def nat_of_digits_def split_sign_def py_int_def

lemmas parse_defs =
  split_by_op_def split_items_def strip_parens.simps opens_block_def block_end_def
  block_body_def branch_end_def branch_body_def get_builtin_functions_def

lemmas scope_defs =
  scope_get.simps scope_exists.simps get_all_names.simps defining_scope.simps scope_set_def
  write_var_def new_scope_def

lemmas exo_defs =
  run_def run_from.simps stmt_def dispatch_def if_chain.simps while_loop_def for_loop_def next_item_def
  assign_element_def evaluate_def eval_arith_def eval_base_def call_function_def parse_args_def
  import_module_def module_file_def full_path_def error_def var_not_defined_def MAX_RECURSION_DEPTH_def is_iterable_def
  dict_size_def deref_def alloc_def store_def exo_numeral exo_Suc Let_def

lemmas observe_defs = global_var_def printed_def init_state_def

section \<open>Properties\<close>

subsection \<open>Lookup in the scope chain\<close>

lemma scope_get_exists: "scope_get scs i n = Val v \<Longrightarrow> scope_exists scs i n"
proof (induction scs i n rule: scope_get.induct)
  case (1 scs i n)
  then show ?case
    by (subst scope_exists.simps, subst (asm) (2) scope_get.simps)
       (auto split: if_splits option.splits)
qed

subsection \<open>Short-circuit evaluation\<close>

lemma eval_all_decides:
  assumes "passes True R pre lnum fl s = Some s0"
    and "rec_eval_arith R A lnum fl s0 = Ok v s1" and "\<not> truthy s1 v"
  shows "eval_all R (pre @ A # rest) lnum fl s = Ok (VBool False) s1"
  using assms
proof (induction pre arbitrary: s)
  case Nil
  then show ?case by simp
next
  case (Cons p pre)
  then show ?case by (auto split: result.splits if_splits)
qed

lemma eval_any_decides:
  assumes "passes False R pre lnum fl s = Some s0"
    and "rec_eval_arith R A lnum fl s0 = Ok v s1" and "truthy s1 v"
  shows "eval_any R (pre @ A # rest) lnum fl s = Ok (VBool True) s1"
  using assms
proof (induction pre arbitrary: s)
  case Nil
  then show ?case by simp
next
  case (Cons p pre)
  then show ?case by (auto split: result.splits if_splits)
qed

text \<open>
  Claim C5. Logical \<^verbatim>\<open>and\<close> and \<^verbatim>\<open>or\<close> short-circuit. \<^verbatim>\<open>eval_arith\<close> splits an
  expression at \<^verbatim>\<open>and\<close> (when no \<^verbatim>\<open>or\<close> splits it first) into the operands of the
  chain. When the operands before an operand \<open>A\<close> evaluate, one after the other, to true
  values and \<open>A\<close> then evaluates to a false value, the result is \<open>False\<close> in the state
  that the evaluation of \<open>A\<close> left: whatever the operands after \<open>A\<close> are and whatever
  their evaluation would do, they are not evaluated. \<open>A\<close> is any operand of the chain: the
  first one when no operand precedes it. Likewise for \<^verbatim>\<open>or\<close>, with operands that
  evaluate to false values before an operand that evaluates to a true value. In
  particular \<^verbatim>\<open>false and (1/0)\<close> and \<^verbatim>\<open>true and false and (1/0)\<close> are \<open>False\<close>, and
  \<^verbatim>\<open>true or (1/0)\<close> and \<^verbatim>\<open>false or true or (1/0)\<close> are \<open>True\<close>, in every state, although
  \<^verbatim>\<open>(1/0)\<close> on its own raises the division error.
\<close>

theorem short_circuit:
  "(first_split (\<lambda>n. 1 < n) (strip_parens (strip e)) ['' or '', '' || ''] = None \<and>
    first_split (\<lambda>n. 1 < n) (strip_parens (strip e)) ['' and '', '' && '']
      = Some (sep, pre @ A # rest) \<and>
    passes True R pre lnum fl s = Some s0 \<and>
    rec_eval_arith R A lnum fl s0 = Ok v s1 \<and> \<not> truthy s1 v
      \<longrightarrow> eval_arith R e lnum fl s = Ok (VBool False) s1) \<and>
   (first_split (\<lambda>n. 1 < n) (strip_parens (strip e)) ['' or '', '' || '']
      = Some (sep, pre @ A # rest) \<and>
    passes False R pre lnum fl s = Some s0 \<and>
    rec_eval_arith R A lnum fl s0 = Ok v s1 \<and> truthy s1 v
      \<longrightarrow> eval_arith R e lnum fl s = Ok (VBool True) s1) \<and>
   evaluate (exo (Suc n)) ''false and (1/0)'' lnum fl s = Ok (VBool False) s \<and>
   evaluate (exo (Suc n)) ''true or (1/0)'' lnum fl s = Ok (VBool True) s \<and>
   evaluate (exo (Suc n)) ''true and false and (1/0)'' lnum fl s = Ok (VBool False) s \<and>
   evaluate (exo (Suc n)) ''false or true or (1/0)'' lnum fl s = Ok (VBool True) s \<and>
   evaluate (exo (Suc n)) ''(1/0)'' lnum fl (init_state fs wd) =
     Raise (Exo \<lparr>err_msg = Msg ''Division by zero'', err_line = lnum, err_file = fl,
                  err_context = Some ''1/0''\<rparr>) (init_state fs wd)"
proof (intro conjI impI)
  assume "first_split (\<lambda>n. 1 < n) (strip_parens (strip e)) ['' or '', '' || ''] = None \<and>
    first_split (\<lambda>n. 1 < n) (strip_parens (strip e)) ['' and '', '' && '']
      = Some (sep, pre @ A # rest) \<and>
    passes True R pre lnum fl s = Some s0 \<and>
    rec_eval_arith R A lnum fl s0 = Ok v s1 \<and> \<not> truthy s1 v"
  then show "eval_arith R e lnum fl s = Ok (VBool False) s1"
    using eval_all_decides [of R pre lnum fl s s0 A v s1 rest] by (simp add: eval_arith_def)
next
  assume "first_split (\<lambda>n. 1 < n) (strip_parens (strip e)) ['' or '', '' || '']
      = Some (sep, pre @ A # rest) \<and>
    passes False R pre lnum fl s = Some s0 \<and>
    rec_eval_arith R A lnum fl s0 = Ok v s1 \<and> truthy s1 v"
  then show "eval_arith R e lnum fl s = Ok (VBool True) s1"
    using eval_any_decides [of R pre lnum fl s s0 A v s1 rest] by (simp add: eval_arith_def)
next
  show "evaluate (exo (Suc n)) ''false and (1/0)'' lnum fl s = Ok (VBool False) s"
    by (simp add: exo_defs parse_defs string_defs cong: bind_weak_cong)
next
  show "evaluate (exo (Suc n)) ''true or (1/0)'' lnum fl s = Ok (VBool True) s"
    by (simp add: exo_defs parse_defs string_defs cong: bind_weak_cong)
next
  show "evaluate (exo (Suc n)) ''true and false and (1/0)'' lnum fl s = Ok (VBool False) s"
    by (simp add: exo_defs parse_defs string_defs cong: bind_weak_cong)
next
  show "evaluate (exo (Suc n)) ''false or true or (1/0)'' lnum fl s = Ok (VBool True) s"
    by (simp add: exo_defs parse_defs string_defs cong: bind_weak_cong)
next
  show "evaluate (exo (Suc n)) ''(1/0)'' lnum fl (init_state fs wd) =
     Raise (Exo \<lparr>err_msg = Msg ''Division by zero'', err_line = lnum, err_file = fl,
                  err_context = Some ''1/0''\<rparr>) (init_state fs wd)"
    by (simp add: exo_defs parse_defs string_defs scope_defs observe_defs py_eq_def
          cong: bind_weak_cong)
qed

theorem short_circuit_witness:
  "eval_arith (exo 1) ''true and false and (1/0)'' None None (init_state Map.empty []) =
     Ok (VBool False) (init_state Map.empty []) \<and>
   eval_arith (exo 1) ''false or true or (1/0)'' None None (init_state Map.empty []) =
     Ok (VBool True) (init_state Map.empty [])"
proof -
  let ?s = "init_state Map.empty []"
  let ?a = "''true and false and (1/0)''"
  let ?b = "''false or true or (1/0)''"
  have a1: "first_split (\<lambda>n. 1 < n) (strip_parens (strip ?a)) ['' or '', '' || ''] = None"
    by (simp add: parse_defs string_defs)
  have a2: "first_split (\<lambda>n. 1 < n) (strip_parens (strip ?a)) ['' and '', '' && '']
             = Some ('' and '', [''true''] @ ''false'' # [''(1/0)''])"
    by (simp add: parse_defs string_defs)
  have t: "rec_eval_arith (exo 1) ''true'' None None ?s = Ok (VBool True) ?s"
    by (simp add: exo_defs parse_defs string_defs cong: bind_weak_cong)
  have f: "rec_eval_arith (exo 1) ''false'' None None ?s = Ok (VBool False) ?s"
    by (simp add: exo_defs parse_defs string_defs cong: bind_weak_cong)
  have a3: "passes True (exo 1) [''true''] None None ?s = Some ?s"
    using t by simp
  have b1: "first_split (\<lambda>n. 1 < n) (strip_parens (strip ?b)) ['' or '', '' || '']
             = Some ('' or '', [''false''] @ ''true'' # [''(1/0)''])"
    by (simp add: parse_defs string_defs)
  have b3: "passes False (exo 1) [''false''] None None ?s = Some ?s"
    using f by simp
  from short_circuit [where e = ?a and sep = "'' and ''" and pre = "[''true'']" and A = "''false''"
      and rest = "[''(1/0)'']" and R = "exo 1" and lnum = None and fl = None and s = ?s
      and ?s0.0 = ?s and v = "VBool False" and ?s1.0 = ?s] a1 a2 a3 f
  have "eval_arith (exo 1) ?a None None ?s = Ok (VBool False) ?s"
    by simp
  moreover
  from short_circuit [where e = ?b and sep = "'' or ''" and pre = "[''false'']" and A = "''true''"
      and rest = "[''(1/0)'']" and R = "exo 1" and lnum = None and fl = None and s = ?s
      and ?s0.0 = ?s and v = "VBool True" and ?s1.0 = ?s] b1 b3 t
  have "eval_arith (exo 1) ?b None None ?s = Ok (VBool True) ?s"
    by simp
  ultimately show ?thesis by simp
qed

subsection \<open>Integer arithmetic and division\<close>

text \<open>
  Claim C6, as stated, fails: the source divides with Python's \<^verbatim>\<open>/\<close>, and an integer
  quotient beyond the largest float is no float but the host's \<^verbatim>\<open>OverflowError\<close>,
  which \<^verbatim>\<open>evaluate\<close> turns into an "Evaluation error". At \<open>a = 2 ^ 1024\<close> and \<open>b = 1\<close>
  the expression \<^verbatim>\<open>a / b\<close> raises.
\<close>

theorem int_division_counterexample:
  "raised (run (exo 5) [''let a = 2 ^ 1024'', ''let b = 1'', ''let c = a / b''] None
            (init_state Map.empty [])) =
     Some (Exo \<lparr>err_msg = Evaluation_error OverflowError, err_line = Some 3, err_file = None,
                  err_context = Some ''a / b''\<rparr>)"
  by (simp add: exo_defs parse_defs string_defs scope_defs observe_defs py_pow_def py_truediv_def
        py_eq_def double_overflow_def cong: bind_weak_cong finally_weak_cong)

text \<open>
  Claim C6, amended. For all integers \<open>x\<close> and \<open>y\<close> that the names \<open>a\<close> and \<open>b\<close> are bound to,
  \<^verbatim>\<open>a + b\<close>, \<^verbatim>\<open>a - b\<close> and \<^verbatim>\<open>a * b\<close> evaluate to the integer sum, difference and
  product; and for \<open>y \<noteq> 0\<close>, \<^verbatim>\<open>a / b\<close> evaluates to a float, the quotient rounded to the
  nearest float, also when the quotient is exact, whenever the quotient is below the
  overflow threshold of the floats: that is so for every \<open>x\<close> of 64 bits. From the threshold
  on the evaluation raises the "Evaluation error" of the \<^verbatim>\<open>OverflowError\<close>.
\<close>

theorem int_arithmetic_types:
  assumes "int_operands s x y"
  shows "evaluate (exo (Suc n)) ''a + b'' lnum file s = Ok (VInt (x + y)) s \<and>
         evaluate (exo (Suc n)) ''a - b'' lnum file s = Ok (VInt (x - y)) s \<and>
         evaluate (exo (Suc n)) ''a * b'' lnum file s = Ok (VInt (x * y)) s \<and>
         (y \<noteq> 0 \<and> \<bar>of_int x\<bar> < double_overflow * \<bar>of_int y\<bar> \<longrightarrow>
            evaluate (exo (Suc n)) ''a / b'' lnum file s =
              Ok (VFloat (round_double (of_int x / of_int y))) s) \<and>
         (y \<noteq> 0 \<and> - (2 ^ 63) \<le> x \<and> x < 2 ^ 63 \<longrightarrow>
            evaluate (exo (Suc n)) ''a / b'' lnum file s =
              Ok (VFloat (round_double (of_int x / of_int y))) s) \<and>
         (y \<noteq> 0 \<and> double_overflow * \<bar>of_int y\<bar> \<le> \<bar>of_int x\<bar> \<longrightarrow>
            evaluate (exo (Suc n)) ''a / b'' lnum file s =
              Raise (Exo \<lparr>err_msg = Evaluation_error OverflowError, err_line = lnum,
                           err_file = file, err_context = Some ''a / b''\<rparr>) s)"
proof -
  have ea: "scope_exists (scopes s) (current_scope s) ''a''"
    and eb: "scope_exists (scopes s) (current_scope s) ''b''"
    using assms by (auto simp: int_operands_def intro: scope_get_exists)
  have ga: "scope_get (scopes s) (current_scope s) ''a'' = Val (VInt x)"
    and gb: "scope_get (scopes s) (current_scope s) ''b'' = Val (VInt y)"
    using assms by (auto simp: int_operands_def)
  note run_simps = evaluate_def eval_arith_def eval_base_def parse_defs string_defs exo_Suc
  have add: "evaluate (exo (Suc n)) ''a + b'' lnum file s = Ok (VInt (x + y)) s"
    using ea eb ga gb by (simp add: run_simps py_add_def cong: bind_weak_cong)
  have sub: "evaluate (exo (Suc n)) ''a - b'' lnum file s = Ok (VInt (x - y)) s"
    using ea eb ga gb by (simp add: run_simps py_sub_def cong: bind_weak_cong)
  have mul: "evaluate (exo (Suc n)) ''a * b'' lnum file s = Ok (VInt (x * y)) s"
    using ea eb ga gb by (simp add: run_simps py_imul_def cong: bind_weak_cong)
  have div: "evaluate (exo (Suc n)) ''a / b'' lnum file s =
               Ok (VFloat (round_double (of_int x / of_int y))) s"
    if "y \<noteq> 0" "\<bar>of_int x :: rat\<bar> < double_overflow * \<bar>of_int y\<bar>"
    using ea eb ga gb that
    by (simp add: run_simps py_truediv_def py_eq_def cong: bind_weak_cong)
  have over: "evaluate (exo (Suc n)) ''a / b'' lnum file s =
                Raise (Exo \<lparr>err_msg = Evaluation_error OverflowError, err_line = lnum,
                             err_file = file, err_context = Some ''a / b''\<rparr>) s"
    if "y \<noteq> 0" "double_overflow * \<bar>of_int y :: rat\<bar> \<le> \<bar>of_int x\<bar>"
    using ea eb ga gb that
    by (simp add: run_simps py_truediv_def py_eq_def error_def cong: bind_weak_cong)
  have small: "\<bar>of_int x :: rat\<bar> < double_overflow * \<bar>of_int y\<bar>"
    if "y \<noteq> 0" "- (2 ^ 63) \<le> x" "x < 2 ^ 63"
  proof -
    have "\<bar>x\<bar> \<le> 2 ^ 63" using that by simp
    then have "\<bar>of_int x :: rat\<bar> \<le> of_int (2 ^ 63)"
      by (metis of_int_abs of_int_le_iff)
    then have x63: "\<bar>of_int x :: rat\<bar> \<le> 2 ^ 63" by simp
    have lt: "(2 :: rat) ^ 63 < double_overflow" by (simp add: double_overflow_def)
    have y1: "(1 :: rat) \<le> \<bar>of_int y\<bar>"
    proof -
      have "1 \<le> \<bar>y\<bar>" using that by simp
      then have "(of_int 1 :: rat) \<le> of_int \<bar>y\<bar>" by (simp only: of_int_le_iff)
      then show ?thesis by simp
    qed
    have pos: "(0 :: rat) \<le> double_overflow" by (simp add: double_overflow_def)
    have "double_overflow * 1 \<le> double_overflow * \<bar>of_int y\<bar>"
      using y1 pos by (rule mult_left_mono)
    then have "double_overflow \<le> double_overflow * \<bar>of_int y\<bar>" by simp
    with lt have "(2 :: rat) ^ 63 < double_overflow * \<bar>of_int y\<bar>" by (rule less_le_trans)
    with x63 show ?thesis by simp
  qed
  show ?thesis
    using add sub mul div over small by blast
qed

theorem int_arithmetic_types_witness:
  "int_operands (globals_state [(''a'', VInt 10), (''b'', VInt 4)]) 10 4 \<and>
   evaluate (exo (Suc 0)) ''a + b'' None None (globals_state [(''a'', VInt 10), (''b'', VInt 4)]) =
     Ok (VInt 14) (globals_state [(''a'', VInt 10), (''b'', VInt 4)]) \<and>
   evaluate (exo (Suc 0)) ''a / b'' None None (globals_state [(''a'', VInt 10), (''b'', VInt 4)]) =
     Ok (VFloat (5 / 2)) (globals_state [(''a'', VInt 10), (''b'', VInt 4)])"
proof -
  let ?s = "globals_state [(''a'', VInt 10), (''b'', VInt 4)]"
  have h: "int_operands ?s 10 4"
    by (simp add: int_operands_def globals_state_def init_state_def scope_get.simps)
  have small: "(4 :: int) \<noteq> 0 \<and> - (2 ^ 63) \<le> (10 :: int) \<and> (10 :: int) < 2 ^ 63"
    by simp
  have r: "round_double (of_int 10 / of_int 4) = 5 / 2"
    by code_simp
  from int_arithmetic_types [OF h, of 0 None None] small r
  show ?thesis using h by simp
qed

subsection \<open>Division and modulo by zero\<close>












subsection \<open>Procedure definitions and calls\<close>

lemma dispatch_func:
  assumes "CHR ''('' \<in> set (strip r)" and "CHR '')'' \<in> set (strip r)"
  shows "stmt R ls fl i (''func '' @ r) s =
           Ok (Next (block_end ls i - i))
              (s\<lparr>functions' := (functions' s)
                    (def_name (strip r) \<mapsto> (block_body ls i, def_params (strip r), current_scope s))\<rparr>)"
proof -
  have fw: "first_word_len (CHR ''f'' # CHR ''u'' # CHR ''n'' # CHR ''c'' # CHR '' '' # r) = 4"
    by (simp add: first_word_len_def is_space_def)
  show ?thesis
    using assms
    by (simp add: stmt_def dispatch_def fw startswith_def def_name_def def_params_def Let_def)
qed

lemma not_builtin_branches:
  assumes "name \<notin> set get_builtin_functions"
  shows "name \<noteq> ''print''" "name \<noteq> ''input''" "name \<noteq> ''len''" "name \<noteq> ''type''"
    "name \<noteq> ''str''" "name \<noteq> ''int''" "name \<noteq> ''float''" "name \<noteq> ''range''"
    "name \<noteq> ''push''" "name \<noteq> ''pop''" "name \<noteq> ''keys''" "name \<noteq> ''values''"
    "name \<noteq> ''html''" "name \<noteq> ''import''" "name \<noteq> ''export''"
    "name \<notin> {''sqrt'', ''pow'', ''abs'', ''round'', ''floor'', ''ceil'', ''max'', ''min'',
                ''sum'', ''random''}"
    "name \<notin> {''join'', ''split'', ''readFile'', ''writeFile'', ''fileExists'',
                ''deleteFile'', ''sleep'', ''json'', ''parseJson''}"
  using assms by (auto simp: get_builtin_functions_def)

lemma call_user_function:
  assumes "name \<notin> set get_builtin_functions"
    and "parse_args R args_str lnum fl s0 = Ok args s"
    and "functions' s name = Some (body, params, def_scope)"
    and "length (call_stack s) < MAX_RECURSION_DEPTH"
  shows "call_function R name args_str lnum fl s0 =
           finally' (\<lambda>t. t\<lparr>call_stack := butlast (call_stack t)\<rparr>)
             (finally' (\<lambda>t. t\<lparr>current_scope := current_scope s\<rparr>)
                (rec_run R body fl (call_state name params def_scope args s)))"
proof -
  have a: "(if args_str \<noteq> [] then parse_args R args_str lnum fl s0 else Ok [] s0) = Ok args s"
    using assms(2) by (auto simp: parse_args_def)
  show ?thesis
    unfolding call_function_def a
    using assms(3,4) not_builtin_branches [OF assms(1)]
    by (simp add: new_scope_def call_state_def Let_def)
qed

lemma call_depth_exceeded:
  assumes "name \<notin> set get_builtin_functions"
    and "parse_args R args_str lnum fl s0 = Ok args s"
    and "functions' s name = Some (body, params, def_scope)"
    and "MAX_RECURSION_DEPTH \<le> length (call_stack s)"
  shows "call_function R name args_str lnum fl s0 =
           Raise (Exo \<lparr>err_msg = Msg ''Recursion depth exceeded (1000)'', err_line = lnum,
                        err_file = fl, err_context = None\<rparr>)
             (s\<lparr>call_stack := call_stack s @ [(name, args)]\<rparr>)"
proof -
  have a: "(if args_str \<noteq> [] then parse_args R args_str lnum fl s0 else Ok [] s0) = Ok args s"
    using assms(2) by (auto simp: parse_args_def)
  have d: "str_of_int (int MAX_RECURSION_DEPTH) = ''1000''"
    unfolding MAX_RECURSION_DEPTH_def by code_simp
  show ?thesis
    unfolding call_function_def a
    using assms(3,4) not_builtin_branches [OF assms(1)]
    by (simp add: error_def Let_def d)
qed

subsection \<open>The store of scopes\<close>

lemma scope_get_append: "i < length scs \<Longrightarrow> scope_get (scs @ ys) i n = scope_get scs i n"
proof (induction scs i n rule: scope_get.induct)
  case (1 scs i n)
  then show ?case
    by (subst scope_get.simps, subst (2) scope_get.simps)
       (auto simp: nth_append split: option.splits)
qed

lemma bind_params_fresh:
  "\<exists>vs. bind_params (scs @ [nw]) (length scs) ps as = scs @ [nw\<lparr>scope_vars := vs\<rparr>] \<and>
        fst ` set vs \<subseteq> fst ` set (scope_vars nw) \<union> set ps"
proof (induction ps arbitrary: nw as)
  case Nil
  show ?case by (rule exI [of _ "scope_vars nw"]) simp
next
  case (Cons p ps)
  have step: "scope_set (scs @ [nw]) (length scs) p v True =
                scs @ [nw\<lparr>scope_vars := AList.update p v (scope_vars nw)\<rparr>]" for v
    by (simp add: scope_set_def write_var_def)
  have keys: "fst ` set (AList.update p v (scope_vars nw)) \<subseteq> fst ` set (scope_vars nw) \<union> {p}" for v
    by (simp add: update_conv' flip: dom_map_of_conv_image_fst)
  show ?case
  proof (cases as)
    case Nil
    from Cons.IH [of "nw\<lparr>scope_vars := AList.update p VNone (scope_vars nw)\<rparr>" "[]"]
    obtain vs where e: "bind_params (scs @ [nw\<lparr>scope_vars := AList.update p VNone (scope_vars nw)\<rparr>])
                          (length scs) ps [] = scs @ [nw\<lparr>scope_vars := vs\<rparr>]"
      and k: "fst ` set vs \<subseteq> fst ` set (AList.update p VNone (scope_vars nw)) \<union> set ps"
      by auto
    have "fst ` set vs \<subseteq> fst ` set (scope_vars nw) \<union> set (p # ps)"
      using k keys [of VNone] by auto
    with e show ?thesis unfolding Nil by (intro exI [of _ vs]) (simp add: step)
  next
    case (Cons a as')
    from Cons.IH [of "nw\<lparr>scope_vars := AList.update p a (scope_vars nw)\<rparr>" as']
    obtain vs where e: "bind_params (scs @ [nw\<lparr>scope_vars := AList.update p a (scope_vars nw)\<rparr>])
                          (length scs) ps as' = scs @ [nw\<lparr>scope_vars := vs\<rparr>]"
      and k: "fst ` set vs \<subseteq> fst ` set (AList.update p a (scope_vars nw)) \<union> set ps"
      by auto
    have "fst ` set vs \<subseteq> fst ` set (scope_vars nw) \<union> set (p # ps)"
      using k keys [of a] by auto
    with e show ?thesis unfolding Cons by (intro exI [of _ vs]) (simp add: step)
  qed
qed

lemma call_state_scope:
  "\<exists>vs. scopes (call_state name params S args s) =
          scopes s @ [\<lparr>scope_parent = Some S, scope_name = ''func:'' @ name, scope_vars = vs\<rparr>] \<and>
        fst ` set vs \<subseteq> set params"
  using bind_params_fresh [of "scopes s"
      "\<lparr>scope_parent = Some S, scope_name = ''func:'' @ name, scope_vars = []\<rparr>" params args]
  by (auto simp: call_state_def)

lemma call_state_reads_definition_scope:
  assumes "S < length (scopes s)" and "v \<notin> set params"
  shows "scope_get (scopes (call_state name params S args s))
           (current_scope (call_state name params S args s)) v = scope_get (scopes s) S v"
proof -
  obtain vs where sc: "scopes (call_state name params S args s) =
      scopes s @ [\<lparr>scope_parent = Some S, scope_name = ''func:'' @ name, scope_vars = vs\<rparr>]"
    and ks: "fst ` set vs \<subseteq> set params"
    using call_state_scope by blast
  have cur: "current_scope (call_state name params S args s) = length (scopes s)"
    by (simp add: call_state_def)
  have "v \<notin> fst ` set vs" using ks assms(2) by blast
  then have none: "map_of vs v = None" by (simp add: map_of_eq_None_iff)
  show ?thesis
    using assms(1) none
    by (subst scope_get.simps) (simp add: sc cur scope_get_append)
qed

lemma scope_get_write_var:
  "S < length scs \<Longrightarrow> scope_get (write_var scs S v w) S v = Val w"
  by (subst scope_get.simps) (simp add: write_var_def update_conv')

subsection \<open>Closures\<close>

text \<open>
  Claim C4. A procedure definition captures a reference to the current scope, and a call
  runs the body in a fresh scope whose parent is the captured scope. The line
  \<^verbatim>\<open>func ...\<close> stores in the table the body, the parameter names and the index of the
  current scope in the store: the scope object itself, not a copy of its variables (the
  store is left as it is). A call of a user-defined procedure runs the body in
  \<open>call_state\<close>, whose current scope is a new object at the end of the store with the
  captured scope as its parent. Hence a name \<open>v\<close> that is not a parameter is looked up,
  from the scope of the call, in the captured scope \<open>S\<close> as it is at the time of the call;
  and after a mutation that writes \<open>w\<close> to \<open>v\<close> in \<open>S\<close>, the call reads \<open>w\<close>.
\<close>

theorem closure_by_reference:
  "(CHR ''('' \<in> set (strip r) \<and> CHR '')'' \<in> set (strip r) \<longrightarrow>
      stmt R ls fl i (''func '' @ r) s =
        Ok (Next (block_end ls i - i))
           (s\<lparr>functions' := (functions' s)
                 (def_name (strip r) \<mapsto> (block_body ls i, def_params (strip r), current_scope s))\<rparr>)) \<and>
   (name \<notin> set get_builtin_functions \<and> parse_args R args_str lnum fl s0 = Ok args s \<and>
    functions' s name = Some (body, params, S) \<and> length (call_stack s) < MAX_RECURSION_DEPTH \<longrightarrow>
      call_function R name args_str lnum fl s0 =
        finally' (\<lambda>t. t\<lparr>call_stack := butlast (call_stack t)\<rparr>)
          (finally' (\<lambda>t. t\<lparr>current_scope := current_scope s\<rparr>)
             (rec_run R body fl (call_state name params S args s)))) \<and>
   current_scope (call_state name params S args s) = length (scopes s) \<and>
   scope_parent (scopes (call_state name params S args s) ! length (scopes s)) = Some S \<and>
   (S < length (scopes s) \<and> v \<notin> set params \<longrightarrow>
      scope_get (scopes (call_state name params S args s))
        (current_scope (call_state name params S args s)) v = scope_get (scopes s) S v) \<and>
   (S < length (scopes s) \<and> v \<notin> set params \<longrightarrow>
      scope_get (scopes (call_state name params S args (s\<lparr>scopes := write_var (scopes s) S v w\<rparr>)))
        (current_scope (call_state name params S args (s\<lparr>scopes := write_var (scopes s) S v w\<rparr>))) v
        = Val w)"
proof -
  have par: "scope_parent (scopes (call_state name params S args s) ! length (scopes s)) = Some S"
    using call_state_scope [of name params S args s] by auto
  have mut: "scope_get (scopes (call_state name params S args (s\<lparr>scopes := write_var (scopes s) S v w\<rparr>)))
        (current_scope (call_state name params S args (s\<lparr>scopes := write_var (scopes s) S v w\<rparr>))) v
        = Val w" if "S < length (scopes s)" "v \<notin> set params"
  proof -
    have "S < length (scopes (s\<lparr>scopes := write_var (scopes s) S v w\<rparr>))"
      using that by (simp add: write_var_def)
    from call_state_reads_definition_scope [OF this that(2)]
    show ?thesis using that by (simp add: scope_get_write_var)
  qed
  show ?thesis
    using dispatch_func call_user_function call_state_reads_definition_scope par mut
    by (simp add: call_state_def)
qed

theorem closure_by_reference_witness:
  "scope_get
     (scopes (call_state ''p'' [] 0 []
        ((globals_state [(''v'', VInt 1)])
           \<lparr>scopes := write_var (scopes (globals_state [(''v'', VInt 1)])) 0 ''v'' (VInt 2)\<rparr>)))
     (current_scope (call_state ''p'' [] 0 []
        ((globals_state [(''v'', VInt 1)])
           \<lparr>scopes := write_var (scopes (globals_state [(''v'', VInt 1)])) 0 ''v'' (VInt 2)\<rparr>)))
     ''v'' = Val (VInt 2) \<and>
   global_var (run (exo 5) [''let v = 1'', ''func p()'', ''return v'', ''end'', ''v = 2'',
                            ''let r = p()''] None (init_state Map.empty [])) ''r'' = Some (VInt 2)"
proof -
  let ?s = "globals_state [(''v'', VInt 1)]"
  have h: "0 < length (scopes ?s) \<and> ''v'' \<notin> set ([] :: string list)"
    by (simp add: globals_state_def init_state_def)
  have prog: "global_var (run (exo 5) [''let v = 1'', ''func p()'', ''return v'', ''end'', ''v = 2'',
                            ''let r = p()''] None (init_state Map.empty [])) ''r'' = Some (VInt 2)"
    by (simp add: exo_defs parse_defs string_defs scope_defs observe_defs
          cong: bind_weak_cong finally_weak_cong)
  from closure_by_reference [where s = ?s and params = "[]" and S = 0 and v = "''v''"
      and name = "''p''" and args = "[]" and w = "VInt 2"] h prog
  show ?thesis by simp
qed

subsection \<open>The table of procedures\<close>

text \<open>
  Claim C10, as stated, fails for a procedure that has the name of a built-in:
  \<^verbatim>\<open>call_function\<close> tries the built-ins first, so the definition is installed in the
  table but a call never reaches it. After \<^verbatim>\<open>func len()\<close> with the body
  \<^verbatim>\<open>return 7\<close>, the table holds the procedure, and \<^verbatim>\<open>len()\<close> is the built-in, which
  raises for want of an argument.
\<close>

theorem builtin_name_counterexample:
  "installed (run (exo 5) [''func len()'', ''return 7'', ''end'', ''let r = len()''] None
               (init_state Map.empty [])) ''len'' = Some ([''return 7''], [], 0) \<and>
   raised (run (exo 5) [''func len()'', ''return 7'', ''end'', ''let r = len()''] None
            (init_state Map.empty [])) =
     Some (Exo \<lparr>err_msg = Msg ''len requires one argument'', err_line = Some 4,
                  err_file = None, err_context = None\<rparr>)"
  by (simp add: exo_defs parse_defs string_defs scope_defs observe_defs installed_def
        cong: bind_weak_cong finally_weak_cong)

text \<open>
  Claim C10, amended. Procedure definitions live in one table keyed by name. Executing a
  \<^verbatim>\<open>func\<close> line in any state (whatever the current scope, the file tag and the code
  around it: the body of another procedure, a module, a route) puts the procedure into
  that table under its name and replaces an entry of the same name. A call of a name that
  is not the name of a built-in is resolved in this table and nowhere else: whatever the
  scopes of the state hold, the call runs the body stored under the name, as long as the
  call stack is below the recursion limit. (The built-ins come first: see above.)
\<close>

theorem procedures_global:
  "(CHR ''('' \<in> set (strip r) \<and> CHR '')'' \<in> set (strip r) \<longrightarrow>
      stmt R ls fl i (''func '' @ r) s =
        Ok (Next (block_end ls i - i))
           (s\<lparr>functions' := (functions' s)
                 (def_name (strip r) \<mapsto> (block_body ls i, def_params (strip r), current_scope s))\<rparr>)) \<and>
   (name \<notin> set get_builtin_functions \<and> parse_args R args_str lnum fl s0 = Ok args s \<and>
    functions' s name = Some (body, params, S) \<and> length (call_stack s) < MAX_RECURSION_DEPTH \<longrightarrow>
      call_function R name args_str lnum fl s0 =
        finally' (\<lambda>t. t\<lparr>call_stack := butlast (call_stack t)\<rparr>)
          (finally' (\<lambda>t. t\<lparr>current_scope := current_scope s\<rparr>)
             (rec_run R body fl (call_state name params S args s)))) \<and>
   (name \<notin> set get_builtin_functions \<and> parse_args R args_str lnum fl s0 = Ok args s \<and>
    functions' s name = None \<longrightarrow>
      call_function R name args_str lnum fl s0 =
        Raise (Exo \<lparr>err_msg = Msg (''Function '' @ [CHR 0x27] @ name @ [CHR 0x27] @ '' not defined''),
                     err_line = lnum, err_file = fl, err_context = None\<rparr>) s)"
proof -
  have undefined_name: "call_function R name args_str lnum fl s0 =
        Raise (Exo \<lparr>err_msg = Msg (''Function '' @ [CHR 0x27] @ name @ [CHR 0x27] @ '' not defined''),
                     err_line = lnum, err_file = fl, err_context = None\<rparr>) s"
    if nb: "name \<notin> set get_builtin_functions" and pa: "parse_args R args_str lnum fl s0 = Ok args s"
      and nf: "functions' s name = None"
  proof -
    have a: "(if args_str \<noteq> [] then parse_args R args_str lnum fl s0 else Ok [] s0) = Ok args s"
      using pa by (auto simp: parse_args_def)
    show ?thesis
      unfolding call_function_def a
      using nf not_builtin_branches [OF nb] by (simp add: error_def)
  qed
  show ?thesis
    using dispatch_func call_user_function undefined_name by simp
qed

theorem procedures_global_witness:
  "call_function (exo (Suc 0)) ''helper'' [] None None
     ((init_state Map.empty [])\<lparr>functions' := [''helper'' \<mapsto> ([''return 7''], [], 0)]\<rparr>) =
     Ok (VInt 7)
       ((init_state Map.empty [])
          \<lparr>functions' := [''helper'' \<mapsto> ([''return 7''], [], 0)],
            scopes := scopes (init_state Map.empty []) @
                      [\<lparr>scope_parent = Some 0, scope_name = ''func:helper'', scope_vars = []\<rparr>]\<rparr>) \<and>
   global_var (run (exo 6) [''func outer()'', ''func helper()'', ''return 7'', ''end'', ''end'',
                            ''outer()'', ''let r = helper()''] None (init_state Map.empty []))
     ''r'' = Some (VInt 7)"
proof -
  let ?s = "(init_state Map.empty [])\<lparr>functions' := [''helper'' \<mapsto> ([''return 7''], [], 0)]\<rparr>"
  have h: "''helper'' \<notin> set get_builtin_functions \<and>
           parse_args (exo (Suc 0)) [] None None ?s = Ok [] ?s \<and>
           functions' ?s ''helper'' = Some ([''return 7''], [], 0) \<and>
           length (call_stack ?s) < MAX_RECURSION_DEPTH"
    by (simp add: get_builtin_functions_def parse_args_def init_state_def MAX_RECURSION_DEPTH_def)
  have body: "rec_run (exo (Suc 0)) [''return 7''] None (call_state ''helper'' [] 0 [] ?s) =
                Ok (VInt 7) (call_state ''helper'' [] 0 [] ?s)"
    by (simp add: exo_defs parse_defs string_defs scope_defs observe_defs call_state_def
          cong: bind_weak_cong finally_weak_cong)
  have prog: "global_var (run (exo 6) [''func outer()'', ''func helper()'', ''return 7'', ''end'',
                ''end'', ''outer()'', ''let r = helper()''] None (init_state Map.empty []))
                ''r'' = Some (VInt 7)"
    by (simp add: exo_defs parse_defs string_defs scope_defs observe_defs
          cong: bind_weak_cong finally_weak_cong)
  from procedures_global [where name = "''helper''" and R = "exo (Suc 0)" and args_str = "[]"
      and lnum = None and fl = None and ?s0.0 = ?s and s = ?s and args = "[]"
      and body = "[''return 7'']" and params = "[]" and S = 0] h body prog
  show ?thesis
    by (simp add: call_state_def init_state_def)
qed

subsection \<open>Declaration and assignment\<close>

lemma scope_set_declare: "scope_set scs i n v True = write_var scs i n v"
  by (simp add: scope_set_def)

lemma write_var_elsewhere: "j \<noteq> i \<Longrightarrow> write_var scs i n v ! j = scs ! j"
  by (simp add: write_var_def)

lemma key_iff: "n \<in> fst ` set xs \<longleftrightarrow> map_of xs n \<noteq> None"
  by (simp add: map_of_eq_None_iff)

lemma scope_exists_names: "scope_exists scs i n \<longleftrightarrow> n \<in> get_all_names scs i"
proof (induction scs i n rule: scope_exists.induct)
  case (1 scs i n)
  show ?case
    using 1
    by (subst scope_exists.simps, subst get_all_names.simps)
       (auto simp: key_iff split: option.splits)
qed

lemma scope_exists_defining:
  "scope_exists scs i n \<Longrightarrow> \<exists>j. defining_scope scs i n = Some j"
proof (induction scs i n rule: scope_exists.induct)
  case (1 scs i n)
  show ?case
    using 1
    by (subst defining_scope.simps, subst (asm) (2) scope_exists.simps)
       (auto simp: key_iff split: option.splits if_splits)
qed

lemma scope_set_assign:
  assumes "scope_exists scs i n"
  shows "\<exists>j. defining_scope scs i n = Some j \<and> scope_set scs i n v False = write_var scs j n v"
  using scope_exists_defining [OF assms] assms
  by (auto simp: scope_set_def scope_exists_names)

lemma declare_assign_examples:
  "global_var (run (exo 5) [''let x = 1'', ''func f()'', ''x = 2'', ''end'', ''f()'', ''x''] None
     (init_state Map.empty [])) ''x'' = Some (VInt 2)"
  "global_var (run (exo 5) [''let x = 1'', ''func g()'', ''let x = 5'', ''end'', ''g()'', ''x''] None
     (init_state Map.empty [])) ''x'' = Some (VInt 1)"
  "raised (run (exo 5) [''func h()'', ''y = 3'', ''end'', ''h()''] None (init_state Map.empty [])) =
     Some (Exo \<lparr>err_msg = Msg (''Variable '' @ [CHR 0x27] @ ''y'' @ [CHR 0x27] @
                                  '' not defined - use '' @ [CHR 0x27] @ ''let'' @ [CHR 0x27] @
                                  '' to declare it first''),
                  err_line = Some 1, err_file = None, err_context = Some ''y = 3''\<rparr>)"
  by (simp_all add: exo_defs parse_defs string_defs scope_defs observe_defs
        cong: bind_weak_cong finally_weak_cong)

text \<open>
  Claim C3. The claim describes what the code is written to do: a declaration writes into
  the current scope, a plain assignment writes into the nearest scope of the chain that has
  the name (the lemmas above, and the examples of the claim), and an assignment to an
  undeclared name raises. But \<^verbatim>\<open>run\<close> tests a line for a pair of parentheses before it
  tests it for \<^verbatim>\<open>=\<close>, and only declarations are kept out of that earlier branch: a
  plain assignment whose right-hand side has parentheses is evaluated as an expression and
  raises "Invalid expression", where the same right-hand side after \<^verbatim>\<open>let\<close> is
  assigned. At the input \<^verbatim>\<open>let x = 1; func two() return 2 end; x = two()\<close> the
  assignment raises and \<open>x\<close> keeps the value 1.
\<close>

theorem assignment_with_parentheses:
  "raised (run (exo 5) [''let x = 1'', ''func two()'', ''return 2'', ''end'', ''x = two()''] None
            (init_state Map.empty [])) =
     Some (Exo \<lparr>err_msg = Msg ''Invalid expression: x = two()'', err_line = Some 5,
                  err_file = None, err_context = Some ''x = two()''\<rparr>) \<and>
   global_var (run (exo 5) [''let x = 1'', ''func two()'', ''return 2'', ''end'', ''x = two()''] None
                (init_state Map.empty [])) ''x'' = Some (VInt 1) \<and>
   global_var (run (exo 5) [''func two()'', ''return 2'', ''end'', ''let x = two()''] None
                (init_state Map.empty [])) ''x'' = Some (VInt 2) \<and>
   global_var (run (exo 5) [''let x = 1'', ''x = 2''] None (init_state Map.empty [])) ''x'' =
     Some (VInt 2)"
  by (simp add: exo_defs parse_defs string_defs scope_defs observe_defs
        cong: bind_weak_cong finally_weak_cong)

subsection \<open>Modules\<close>

lemma import_cached:
  assumes "modules s (full_path s fl (module_file p)) = Some a"
  shows "import_module R (VStr p) lnum fl s = Ok (VDict a) s"
  using assms by (simp add: import_module_def)

lemma import_first:
  assumes "modules s (full_path s fl (module_file p)) = None"
    and "files s (full_path s fl (module_file p)) = Some src"
  shows "import_module R (VStr p) lnum fl s =
           loaded (full_path s fl (module_file p)) lnum fl
             (finally' (\<lambda>t. t\<lparr>current_scope := current_scope s\<rparr>)
                (rec_run R (split_char CHR 0x0A src) (Some (full_path s fl (module_file p)))
                   (import_state (module_file p) (full_path s fl (module_file p)) s)))"
  using assms
  by (simp add: import_module_def alloc_def new_scope_def import_state_def loaded_def Let_def)

lemma import_returns_registered:
  assumes "import_module R (VStr p) lnum fl s = Ok v s1"
  shows "\<exists>a. v = VDict a \<and> modules s1 (full_path s fl (module_file p)) = Some a"
proof (cases "modules s (full_path s fl (module_file p))")
  case (Some a)
  with assms show ?thesis by (simp add: import_module_def)
next
  case mn: None
  show ?thesis
  proof (cases "files s (full_path s fl (module_file p))")
    case None
    with assms mn show ?thesis
      by (simp add: import_module_def error_def)
  next
    case (Some src)
    from import_first [OF mn Some, of R lnum] assms
    show ?thesis
      by (auto simp: loaded_def error_def split: result.splits option.splits exn.splits)
  qed
qed

text \<open>
  Claim C9. Importing the same module path twice returns the same exports object and runs
  the module body once. A path that is in \<^verbatim>\<open>modules\<close> is answered from the cache: the
  result is the registered dict and the state is unchanged, whatever the interpreter
  would do with the body, so nothing is executed. A path that is not yet in
  \<^verbatim>\<open>modules\<close> is registered with a new, empty dict before the body runs (the body runs
  in \<open>import_state\<close>, where the entry is already there), the body is run once, and the
  result is the dict that is registered under the path afterwards. Hence a second import
  of the path, from the same file and working directory, returns the very object that the
  first import returned and leaves the state as the first import left it.
\<close>

theorem module_idempotence:
  "(modules s (full_path s fl (module_file p)) = Some a \<longrightarrow>
      import_module R (VStr p) lnum fl s = Ok (VDict a) s) \<and>
   (modules s (full_path s fl (module_file p)) = None \<and>
    files s (full_path s fl (module_file p)) = Some src \<longrightarrow>
      import_module R (VStr p) lnum fl s =
        loaded (full_path s fl (module_file p)) lnum fl
          (finally' (\<lambda>t. t\<lparr>current_scope := current_scope s\<rparr>)
             (rec_run R (split_char CHR 0x0A src) (Some (full_path s fl (module_file p)))
                (import_state (module_file p) (full_path s fl (module_file p)) s))) \<and>
      modules (import_state (module_file p) (full_path s fl (module_file p)) s)
        (full_path s fl (module_file p)) = Some (length (heap s))) \<and>
   (import_module R (VStr p) lnum fl s = Ok v s1 \<and> cwd s1 = cwd s \<longrightarrow>
      import_module R' (VStr p) lnum' fl s1 = Ok v s1)"
proof -
  have second: "import_module R' (VStr p) lnum' fl s1 = Ok v s1"
    if r: "import_module R (VStr p) lnum fl s = Ok v s1" and c: "cwd s1 = cwd s"
  proof -
    from import_returns_registered [OF r]
    obtain a where v: "v = VDict a" and m: "modules s1 (full_path s fl (module_file p)) = Some a"
      by blast
    have "full_path s1 fl (module_file p) = full_path s fl (module_file p)"
      using c by (simp add: full_path_def split: option.splits)
    with m have "modules s1 (full_path s1 fl (module_file p)) = Some a" by simp
    from import_cached [OF this] v show ?thesis by simp
  qed
  show ?thesis
    using import_cached import_first second by (simp add: import_state_def)
qed


theorem module_idempotence_witness:
  "import_module (exo 3) (VStr ''m'') None (Some ''/w/main.exo'')
     ((init_state [''/w/m.exo'' \<mapsto> ''print(true)''] ''/w'')
        \<lparr>modules := [''/w/m.exo'' \<mapsto> 0], heap := [ODict []]\<rparr>) =
     Ok (VDict 0)
       ((init_state [''/w/m.exo'' \<mapsto> ''print(true)''] ''/w'')
          \<lparr>modules := [''/w/m.exo'' \<mapsto> 0], heap := [ODict []]\<rparr>) \<and>
   global_var (run (exo 5) [''let a = import('' @ [CHR 0x27] @ ''m'' @ [CHR 0x27] @ '')'',
                            ''let b = import('' @ [CHR 0x27] @ ''m'' @ [CHR 0x27] @ '')'']
                 (Some ''/w/main.exo'') (init_state [''/w/m.exo'' \<mapsto> ''print(true)''] ''/w''))
     ''a'' = Some (VDict 0) \<and>
   global_var (run (exo 5) [''let a = import('' @ [CHR 0x27] @ ''m'' @ [CHR 0x27] @ '')'',
                            ''let b = import('' @ [CHR 0x27] @ ''m'' @ [CHR 0x27] @ '')'']
                 (Some ''/w/main.exo'') (init_state [''/w/m.exo'' \<mapsto> ''print(true)''] ''/w''))
     ''b'' = Some (VDict 0) \<and>
   printed (run (exo 5) [''let a = import('' @ [CHR 0x27] @ ''m'' @ [CHR 0x27] @ '')'',
                         ''let b = import('' @ [CHR 0x27] @ ''m'' @ [CHR 0x27] @ '')'']
              (Some ''/w/main.exo'') (init_state [''/w/m.exo'' \<mapsto> ''print(true)''] ''/w''))
     = [''True'']"
proof -
  let ?s = "(init_state [''/w/m.exo'' \<mapsto> ''print(true)''] ''/w'')
              \<lparr>modules := [''/w/m.exo'' \<mapsto> 0], heap := [ODict []]\<rparr>"
  have fp: "full_path ?s (Some ''/w/main.exo'') (module_file ''m'') = ''/w/m.exo''"
    by (simp add: full_path_def module_file_def path_join_def dirname_def abspath_def
          normpath_def string_defs init_state_def)
  have h: "modules ?s (full_path ?s (Some ''/w/main.exo'') (module_file ''m'')) = Some 0"
    unfolding fp by (simp add: init_state_def)
  have prog:
    "global_var (run (exo 5) [''let a = import('' @ [CHR 0x27] @ ''m'' @ [CHR 0x27] @ '')'',
                            ''let b = import('' @ [CHR 0x27] @ ''m'' @ [CHR 0x27] @ '')'']
                 (Some ''/w/main.exo'') (init_state [''/w/m.exo'' \<mapsto> ''print(true)''] ''/w''))
       ''a'' = Some (VDict 0)"
    "global_var (run (exo 5) [''let a = import('' @ [CHR 0x27] @ ''m'' @ [CHR 0x27] @ '')'',
                            ''let b = import('' @ [CHR 0x27] @ ''m'' @ [CHR 0x27] @ '')'']
                 (Some ''/w/main.exo'') (init_state [''/w/m.exo'' \<mapsto> ''print(true)''] ''/w''))
       ''b'' = Some (VDict 0)"
    "printed (run (exo 5) [''let a = import('' @ [CHR 0x27] @ ''m'' @ [CHR 0x27] @ '')'',
                         ''let b = import('' @ [CHR 0x27] @ ''m'' @ [CHR 0x27] @ '')'']
              (Some ''/w/main.exo'') (init_state [''/w/m.exo'' \<mapsto> ''print(true)''] ''/w''))
       = [''True'']"
    by (simp_all add: exo_defs parse_defs string_defs scope_defs observe_defs path_join_def
          dirname_def abspath_def normpath_def parse_string_def replace_def
          cong: bind_weak_cong finally_weak_cong)
  from module_idempotence [where s = ?s and fl = "Some ''/w/main.exo''" and p = "''m''" and a = 0
      and R = "exo 3" and lnum = None] h prog
  show ?thesis by simp
qed

subsection \<open>The recursion limit\<close>

lemma evaluate_call_f:
  assumes "functions' s ''f'' \<noteq> None"
  shows "evaluate R ''f()'' lnum fl s =
           (case call_function R ''f'' [] lnum fl s of
              Raise (Py x) s1 \<Rightarrow> error (Evaluation_error x) lnum fl (Some ''f()'') s1
            | r \<Rightarrow> r)"
  using assms
  by (simp add: evaluate_def eval_arith_def eval_base_def parse_defs string_defs
        cong: bind_weak_cong result.case_cong)

lemma run_first_call:
  assumes "evaluate R ''f()'' (Some (Suc 0)) fl t = Raise (Exo e) t'"
  shows "run R (''f()'' # rest) fl t = Raise (Exo e) t'"
  unfolding run_def
  by (subst run_from.simps) (simp add: stmt_def dispatch_def string_defs assms)

lemma self_call_overflows:
  assumes "functions' s ''f'' = Some (''f()'' # rest, ps, d)"
    and "length (call_stack s) + j = MAX_RECURSION_DEPTH"
    and "j \<le> m"
  shows "\<exists>s'. evaluate (exo m) ''f()'' lnum fl s =
                Raise (depth_error (if j = 0 then lnum else Some (Suc 0)) fl) s' \<and>
              length (call_stack s') = Suc (length (call_stack s))"
  using assms
proof (induction j arbitrary: s m lnum)
  case 0
  have nb: "''f'' \<notin> set get_builtin_functions"
    by (simp add: get_builtin_functions_def)
  have pa: "parse_args (exo m) [] lnum fl s = Ok [] s"
    by (simp add: parse_args_def)
  from call_depth_exceeded [OF nb pa "0.prems"(1)] "0.prems"(2)
  have "call_function (exo m) ''f'' [] lnum fl s =
          Raise (depth_error lnum fl) (s\<lparr>call_stack := call_stack s @ [(''f'', [])]\<rparr>)"
    by (simp add: depth_error_def)
  then show ?case
    using "0.prems"(1) by (simp add: evaluate_call_f depth_error_def)
next
  case (Suc j)
  from Suc.prems(3) obtain m' where m: "m = Suc m'" and jm: "j \<le> m'"
    by (cases m) auto
  let ?cs = "call_state ''f'' ps d [] s"
  have nb: "''f'' \<notin> set get_builtin_functions"
    by (simp add: get_builtin_functions_def)
  have pa: "parse_args (exo m) [] lnum fl s = Ok [] s"
    by (simp add: parse_args_def)
  have below: "length (call_stack s) < MAX_RECURSION_DEPTH"
    using Suc.prems(2) by simp
  have call: "call_function (exo m) ''f'' [] lnum fl s =
                finally' (\<lambda>t. t\<lparr>call_stack := butlast (call_stack t)\<rparr>)
                  (finally' (\<lambda>t. t\<lparr>current_scope := current_scope s\<rparr>)
                     (run (exo m') (''f()'' # rest) fl ?cs))"
    using call_user_function [OF nb pa Suc.prems(1) below] by (simp add: m exo_Suc)
  have f': "functions' ?cs ''f'' = Some (''f()'' # rest, ps, d)"
    using Suc.prems(1) by (simp add: call_state_def)
  have len: "length (call_stack ?cs) + j = MAX_RECURSION_DEPTH"
    using Suc.prems(2) by (simp add: call_state_def)
  from Suc.IH [OF f' len jm, of "Some (Suc 0)"]
  obtain s' where ev: "evaluate (exo m') ''f()'' (Some (Suc 0)) fl ?cs =
                         Raise (depth_error (Some (Suc 0)) fl) s'"
    and l': "length (call_stack s') = Suc (length (call_stack ?cs))"
    by (auto split: if_splits)
  have "run (exo m') (''f()'' # rest) fl ?cs = Raise (depth_error (Some (Suc 0)) fl) s'"
    using run_first_call [of "exo m'" fl ?cs _ s' rest] ev by (simp add: depth_error_def)
  with call have "call_function (exo m) ''f'' [] lnum fl s =
      Raise (depth_error (Some (Suc 0)) fl)
        (s'\<lparr>current_scope := current_scope s, call_stack := butlast (call_stack s')\<rparr>)"
    by simp
  then have "evaluate (exo m) ''f()'' lnum fl s =
      Raise (depth_error (Some (Suc 0)) fl)
        (s'\<lparr>current_scope := current_scope s, call_stack := butlast (call_stack s')\<rparr>)"
    using Suc.prems(1) by (simp add: evaluate_call_f depth_error_def)
  moreover have "length (call_stack (s'\<lparr>current_scope := current_scope s,
                    call_stack := butlast (call_stack s')\<rparr>)) = Suc (length (call_stack s))"
    using l' by (simp add: call_state_def)
  ultimately show ?case by auto
qed

lemma run_first_call_stuck:
  assumes "evaluate R ''f()'' (Some (Suc 0)) fl t = Stuck k"
  shows "run R (''f()'' # rest) fl t = Stuck k"
  unfolding run_def
  by (subst run_from.simps) (simp add: stmt_def dispatch_def string_defs assms)

lemma self_call_needs_depth:
  assumes "functions' s ''f'' = Some (''f()'' # rest, ps, d)"
    and "length (call_stack s) + m < MAX_RECURSION_DEPTH"
  shows "evaluate (exo m) ''f()'' lnum fl s = Stuck OutOfFuel"
  using assms
proof (induction m arbitrary: s lnum)
  case 0
  have nb: "''f'' \<notin> set get_builtin_functions"
    by (simp add: get_builtin_functions_def)
  have pa: "parse_args (exo 0) [] lnum fl s = Ok [] s"
    by (simp add: parse_args_def)
  have below: "length (call_stack s) < MAX_RECURSION_DEPTH"
    using "0.prems"(2) by simp
  have "call_function (exo 0) ''f'' [] lnum fl s = Stuck OutOfFuel"
    using call_user_function [OF nb pa "0.prems"(1) below] by (simp add: exo.simps)
  then show ?case
    using "0.prems"(1) by (simp add: evaluate_call_f)
next
  case (Suc m)
  let ?cs = "call_state ''f'' ps d [] s"
  have nb: "''f'' \<notin> set get_builtin_functions"
    by (simp add: get_builtin_functions_def)
  have pa: "parse_args (exo (Suc m)) [] lnum fl s = Ok [] s"
    by (simp add: parse_args_def)
  have below: "length (call_stack s) < MAX_RECURSION_DEPTH"
    using Suc.prems(2) by simp
  have call: "call_function (exo (Suc m)) ''f'' [] lnum fl s =
                finally' (\<lambda>t. t\<lparr>call_stack := butlast (call_stack t)\<rparr>)
                  (finally' (\<lambda>t. t\<lparr>current_scope := current_scope s\<rparr>)
                     (run (exo m) (''f()'' # rest) fl ?cs))"
    using call_user_function [OF nb pa Suc.prems(1) below] by (simp add: exo_Suc)
  have f': "functions' ?cs ''f'' = Some (''f()'' # rest, ps, d)"
    using Suc.prems(1) by (simp add: call_state_def)
  have len: "length (call_stack ?cs) + m < MAX_RECURSION_DEPTH"
    using Suc.prems(2) by (simp add: call_state_def)
  have "run (exo m) (''f()'' # rest) fl ?cs = Stuck OutOfFuel"
    using Suc.IH [OF f' len, of "Some (Suc 0)"] by (rule run_first_call_stuck)
  with call have "call_function (exo (Suc m)) ''f'' [] lnum fl s = Stuck OutOfFuel"
    by simp
  then show ?case
    using Suc.prems(1) by (simp add: evaluate_call_f)
qed

lemma define_then_call:
  "evaluate R ''f()'' (Some (Suc (Suc (Suc (Suc 0))))) fl
     (s\<lparr>functions' := (functions' s)(''f'' \<mapsto> ([''f()''], [], current_scope s))\<rparr>) = Stuck k
   \<Longrightarrow> run R [''func f()'', ''f()'', ''end'', ''f()''] fl s = Stuck k"
  "evaluate R ''f()'' (Some (Suc (Suc (Suc (Suc 0))))) fl
     (s\<lparr>functions' := (functions' s)(''f'' \<mapsto> ([''f()''], [], current_scope s))\<rparr>)
       = Raise (Exo e) s'
   \<Longrightarrow> run R [''func f()'', ''f()'', ''end'', ''f()''] fl s = Raise (Exo e) s'"
  by (simp_all add: run_def run_from.simps stmt_def dispatch_def parse_defs string_defs Let_def)

text \<open>
  Claim C8 does not hold of the code. \<^verbatim>\<open>call_function\<close> counts the frames of the call
  stack of the language and raises "Recursion depth exceeded" at 1000, but every call of a
  procedure nests a call of \<^verbatim>\<open>run\<close> inside the evaluation that made it, and that nesting
  is bounded by the host first. For the program \<^verbatim>\<open>func f()\<close>, \<^verbatim>\<open>f()\<close>, \<^verbatim>\<open>end\<close>, \<^verbatim>\<open>f()\<close>: with
  room for 999 nested calls of \<^verbatim>\<open>run\<close> the evaluation has used up the room before the call
  stack holds 1000 frames, and the error of the cap is raised only with room for 1000 of
  them. The host gives less: Python's recursion limit is 1000 frames by default, the source
  never raises it, and one call of a procedure takes several frames (\<^verbatim>\<open>call_function\<close>,
  \<^verbatim>\<open>run\<close>, \<^verbatim>\<open>evaluate\<close>, \<^verbatim>\<open>eval_arith\<close>, \<^verbatim>\<open>eval_base\<close>). So on the host the recursion ends
  in the host's \<^verbatim>\<open>RecursionError\<close>, which \<^verbatim>\<open>evaluate\<close> reports as an "Evaluation error",
  and never in the error of the cap.
\<close>

theorem recursion_cap_out_of_reach:
  "run (exo 999) [''func f()'', ''f()'', ''end'', ''f()''] None (init_state Map.empty [])
     = Stuck OutOfFuel \<and>
   raised (run (exo 1000) [''func f()'', ''f()'', ''end'', ''f()''] None (init_state Map.empty []))
     = Some (depth_error (Some 1) None)"
proof -
  let ?s = "init_state Map.empty []"
  let ?t = "?s\<lparr>functions' := (functions' ?s)(''f'' \<mapsto> ([''f()''], [], current_scope ?s))\<rparr>"
  have f: "functions' ?t ''f'' = Some (''f()'' # [], [], current_scope ?s)"
    by simp
  have "length (call_stack ?t) + 999 < MAX_RECURSION_DEPTH"
    by (simp add: init_state_def MAX_RECURSION_DEPTH_def)
  from self_call_needs_depth [OF f this, of "Some (Suc (Suc (Suc (Suc 0))))" None]
  have a: "run (exo 999) [''func f()'', ''f()'', ''end'', ''f()''] None ?s = Stuck OutOfFuel"
    by (rule define_then_call(1))
  have "length (call_stack ?t) + 1000 = MAX_RECURSION_DEPTH" and "(1000::nat) \<le> 1000"
    by (simp_all add: init_state_def MAX_RECURSION_DEPTH_def)
  from self_call_overflows [OF f this, of "Some (Suc (Suc (Suc (Suc 0))))" None]
  obtain s' where "evaluate (exo 1000) ''f()'' (Some (Suc (Suc (Suc (Suc 0))))) None ?t
                     = Raise (depth_error (Some (Suc 0)) None) s'"
    by auto
  then have "run (exo 1000) [''func f()'', ''f()'', ''end'', ''f()''] None ?s
               = Raise (depth_error (Some (Suc 0)) None) s'"
    unfolding depth_error_def by (rule define_then_call(2))
  with a show ?thesis by simp
qed

end
